theory Spec2Isabelle
  imports Main "HOL-Library.Word"
begin

section \<open>The browser scripts of the Aeodos landing page\<close>

text \<open>
  The page is driven by three controllers: the playground (\<^verbatim>\<open>assets/js/playground.js\<close>),
  the key-request modal (\<^verbatim>\<open>assets/js/main.js\<close>) and the code-example switcher
  (\<^verbatim>\<open>assets/js/codeExamples.js\<close>). Each controller is embedded as functions on a record of
  the part of the document it reads and writes. A handler that can raise returns the
  exception beside the state it leaves behind; what the network answers and which
  highlighter is installed are arguments.
\<close>

subsection \<open>JavaScript values that cross the network boundary\<close>

text \<open>
  A value produced by \<^verbatim>\<open>response.json()\<close>. A number is carried as the decimal text that
  \<^verbatim>\<open>Number.prototype.toString\<close> gives for it (both zeros print as \<^verbatim>\<open>0\<close>), which is all the
  scripts ever ask of a number; a parsed object is its list of own properties.
\<close>

datatype json =
  JNull
| JBool bool
| JNum string
| JStr string
| JArr "json list"
| JObj "(string \<times> json) list"

text \<open>Exceptions are values; \<^verbatim>\<open>error.message\<close> reads the text.\<close>

datatype exn =
  Error string
| TypeError string
| SyntaxError string
| ReferenceError string

fun message :: "exn \<Rightarrow> string" where
  "message (Error m) = m"
| "message (TypeError m) = m"
| "message (SyntaxError m) = m"
| "message (ReferenceError m) = m"

text \<open>
  Truthiness, as the operator \<^verbatim>\<open>||\<close> and \<^verbatim>\<open>if\<close> test it. \<^verbatim>\<open>None\<close> stands for
  \<^verbatim>\<open>undefined\<close>, the value of a property that is not there.
\<close>

fun truthy :: "json option \<Rightarrow> bool" where
  "truthy None = False"
| "truthy (Some JNull) = False"
| "truthy (Some (JBool b)) = b"
| "truthy (Some (JNum n)) = (n \<noteq> ''0'')"
| "truthy (Some (JStr s)) = (s \<noteq> [])"
| "truthy (Some (JArr xs)) = True"
| "truthy (Some (JObj ps)) = True"

text \<open>
  \<^verbatim>\<open>data.key\<close> for the three keys the scripts read (\<^verbatim>\<open>detail\<close>, \<^verbatim>\<open>previewUrl\<close>,
  \<^verbatim>\<open>api_key\<close>, none of which a prototype defines): reading a property of \<^verbatim>\<open>null\<close>
  raises, an object answers with its own property, every other value with \<^verbatim>\<open>undefined\<close>.
\<close>

fun get_prop :: "json \<Rightarrow> string \<Rightarrow> exn + json option" where
  "get_prop JNull k = Inl (TypeError (''Cannot read properties of null (reading '' @ [CHR 0x27] @ k @ [CHR 0x27] @ '')''))"
| "get_prop (JObj ps) k = Inr (map_of ps k)"
| "get_prop v k = Inr None"

text \<open>
  The string conversion that \<^verbatim>\<open>new Error(v)\<close>, a template literal and an attribute
  assignment apply. An array joins its elements with commas (\<^verbatim>\<open>null\<close> prints empty there);
  a parsed object prints as \<^verbatim>\<open>[object Object]\<close>, unless it carries an own property
  \<^verbatim>\<open>toString\<close>, which shadows the inherited method with something that cannot be called.
\<close>

fun ToString :: "json \<Rightarrow> exn + string"
  and join_elements :: "json list \<Rightarrow> exn + string" where
  "ToString JNull = Inr ''null''"
| "ToString (JBool b) = Inr (if b then ''true'' else ''false'')"
| "ToString (JNum n) = Inr n"
| "ToString (JStr s) = Inr s"
| "ToString (JArr xs) = join_elements xs"
| "ToString (JObj ps) =
     (if ''toString'' \<in> set (map fst ps)
      then Inl (TypeError ''Cannot convert object to primitive value'')
      else Inr ''[object Object]'')"
| "join_elements [] = Inr []"
| "join_elements (x # xs) =
     (case (if x = JNull then Inr [] else ToString x) of
        Inl e \<Rightarrow> Inl e
      | Inr s \<Rightarrow>
          (if xs = [] then Inr s
           else (case join_elements xs of
                   Inl e \<Rightarrow> Inl e
                 | Inr r \<Rightarrow> Inr (s @ '','' @ r))))"

text \<open>The operator \<^verbatim>\<open>||\<close> with a defined right operand.\<close>

fun or_else :: "json option \<Rightarrow> json \<Rightarrow> json" where
  "or_else None w = w"
| "or_else (Some v) w = (if truthy (Some v) then v else w)"

text \<open>
  How a \<^verbatim>\<open>fetch\<close> settles: the promise rejects (no connection), or a response arrives
  with its \<^verbatim>\<open>ok\<close> flag (status 200 to 299) and a body that \<^verbatim>\<open>response.json()\<close> either
  refuses, with the text of its syntax error, or parses.
\<close>

datatype body = Malformed string | Parsed json

datatype fetch_outcome = Rejected exn | Responded bool body

text \<open>
  \<^verbatim>\<open>throw new Error(data.detail || fallback)\<close>, the statement both controllers run on a
  response that is not ok. It always raises; which exception depends on the body.
\<close>

definition throw_detail :: "string \<Rightarrow> json \<Rightarrow> exn" where
  "throw_detail fallback data =
     (case get_prop data ''detail'' of
        Inl e \<Rightarrow> e
      | Inr d \<Rightarrow>
          (case ToString (or_else d (JStr fallback)) of
             Inl e \<Rightarrow> e
           | Inr m \<Rightarrow> Error m))"

subsection \<open>JavaScript strings as UTF-16 code units\<close>

text \<open>
  The key-request form measures \<^verbatim>\<open>company.value.length\<close> and runs a regular expression
  without the \<^verbatim>\<open>u\<close> flag over \<^verbatim>\<open>email.value\<close>; both count UTF-16 code units, so the two
  field values are lists of 16-bit words. \<^verbatim>\<open>utf16\<close> writes an ASCII literal that way.
\<close>

type_synonym code_unit = "16 word"
type_synonym jsstring = "code_unit list"

definition utf16 :: "string \<Rightarrow> jsstring" where
  "utf16 s = map (\<lambda>c. of_nat (of_char c)) s"

text \<open>
  The class \<^verbatim>\<open>\s\<close> of ECMAScript: the white space code points (tab, vertical tab, form
  feed, space, no-break space, the byte order mark and the other space separators) and the
  line terminators.
\<close>

definition js_space :: "code_unit \<Rightarrow> bool" where
  "js_space c =
     (c = 0x0009 \<or> c = 0x000A \<or> c = 0x000B \<or> c = 0x000C \<or> c = 0x000D \<or> c = 0x0020 \<or>
      c = 0x00A0 \<or> c = 0x1680 \<or> (0x2000 \<le> c \<and> c \<le> 0x200A) \<or> c = 0x2028 \<or>
      c = 0x2029 \<or> c = 0x202F \<or> c = 0x205F \<or> c = 0x3000 \<or> c = 0xFEFF)"

text \<open>
  The fragment of regular expressions that \<^verbatim>\<open>isValidEmail\<close> uses: a pattern anchored at
  both ends (\<^verbatim>\<open>^\<close> ... \<^verbatim>\<open>$\<close>) is a sequence of atoms, each matched once or, under
  \<^verbatim>\<open>+\<close>, one or more times. \<^verbatim>\<open>regex_test\<close> is the backtracking matcher: a \<^verbatim>\<open>+\<close> first
  tries to take one more code unit and, failing that, hands over to the rest of the pattern.
\<close>

datatype atom = NotSpaceNorAt | Literal code_unit

datatype quantifier = Once | OneOrMore

fun atom_matches :: "atom \<Rightarrow> code_unit \<Rightarrow> bool" where
  "atom_matches NotSpaceNorAt c = (\<not> js_space c \<and> c \<noteq> 0x0040)"
| "atom_matches (Literal l) c = (c = l)"

fun regex_test :: "(atom \<times> quantifier) list \<Rightarrow> jsstring \<Rightarrow> bool" where
  "regex_test [] s = (s = [])"
| "regex_test ((a, q) # r) [] = False"
| "regex_test ((a, Once) # r) (c # cs) = (atom_matches a c \<and> regex_test r cs)"
| "regex_test ((a, OneOrMore) # r) (c # cs) =
     (atom_matches a c \<and> (regex_test ((a, OneOrMore) # r) cs \<or> regex_test r cs))"

text \<open>The literal \<^verbatim>\<open>/^[^\s@]+@[^\s@]+\.[^\s@]+$/\<close>.\<close>

definition email_regex :: "(atom \<times> quantifier) list" where
  "email_regex =
     [(NotSpaceNorAt, OneOrMore), (Literal 0x0040, Once),
      (NotSpaceNorAt, OneOrMore), (Literal 0x002E, Once),
      (NotSpaceNorAt, OneOrMore)]"

definition isValidEmail :: "jsstring \<Rightarrow> bool" where
  "isValidEmail email = regex_test email_regex email"

text \<open>
  The language of that expression in the words of the specification: a non-empty local
  part, an \<^verbatim>\<open>@\<close>, a non-empty domain, a dot and a non-empty suffix, where no part holds
  white space or an \<^verbatim>\<open>@\<close>. It is what the matcher is compared against.
\<close>

definition email_part :: "jsstring \<Rightarrow> bool" where
  "email_part p = (p \<noteq> [] \<and> list_all (\<lambda>c. \<not> js_space c \<and> c \<noteq> 0x0040) p)"

definition matches_email_expression :: "jsstring \<Rightarrow> bool" where
  "matches_email_expression e =
     (\<exists>l d t. e = l @ [0x0040] @ d @ [0x002E] @ t \<and> email_part l \<and> email_part d \<and> email_part t)"

subsection \<open>The highlighter\<close>

text \<open>
  The global \<^verbatim>\<open>Prism\<close> is either not defined or an object. The two entry points the
  scripts call may each be missing; one that is there is an opaque function from what an
  element shows to markup, and it may raise. \<^verbatim>\<open>highlightAll\<close> is given the text of a
  code block; \<^verbatim>\<open>highlightElement\<close> is only ever called on the preview pane, whose text is
  \<^verbatim>\<open>JSON.stringify(data, null, 2)\<close>, and is given that \<^verbatim>\<open>data\<close>.
\<close>

record prism_api =
  highlightAll :: "(string \<Rightarrow> exn + string) option"
  highlightElement :: "(json \<Rightarrow> exn + string) option"

datatype prism = PrismUndefined | PrismObject prism_api


text \<open>
  The other is the object that \<^verbatim>\<open>Aoede.init\<close> in \<^verbatim>\<open>index.html\<close> assigns to
  \<^verbatim>\<open>window.Prism\<close> when the document has loaded. Its \<^verbatim>\<open>highlightAll\<close> calls
  \<^verbatim>\<open>highlightElement\<close> on every code block, which looks the grammar up by the class of the
  block and assigns \<^verbatim>\<open>this.highlight(text, grammar)\<close> to \<^verbatim>\<open>innerHTML\<close>. It knows the
  languages \<^verbatim>\<open>javascript\<close> and \<^verbatim>\<open>json\<close> only. The three blocks of the code panels carry
  the class \<^verbatim>\<open>language-bash\<close>: their grammar is \<^verbatim>\<open>undefined\<close>, the loop of \<^verbatim>\<open>tokenize\<close>
  over it has no round, the whole text becomes one token of type \<^verbatim>\<open>text\<close> and
  \<^verbatim>\<open>stringify\<close> returns it as it is. So for these blocks the markup is the text itself,
  not escaped. On the preview pane (\<^verbatim>\<open>language-json\<close>) the tokenizer does run; its output
  is left open.
\<close>

definition page_prism :: "(json \<Rightarrow> string) \<Rightarrow> prism" where
  "page_prism markup_of_data =
     PrismObject \<lparr>highlightAll = Some (\<lambda>t. Inr t),
                  highlightElement = Some (\<lambda>d. Inr (markup_of_data d))\<rparr>"

text \<open>
  What the document shows for a string assigned to \<^verbatim>\<open>innerHTML\<close> of a \<^verbatim>\<open>code\<close> element:
  the text of the parsed fragment. Only the part of the HTML tokenizer that the snippets of
  the store exercise is written out. In the data state a \<^verbatim>\<open><\<close> followed by \<^verbatim>\<open>?\<close> opens a
  bogus comment, which lasts up to and including the next \<^verbatim>\<open>>\<close> (or to the end) and shows
  nothing; a \<^verbatim>\<open><\<close> before the end of input or before a character that cannot start a tag
  is text. A string with a tag, a declaration, a character reference, a carriage return or
  a null character is outside that part, and the result is \<^verbatim>\<open>None\<close>. The flag says
  whether the tokenizer is inside a bogus comment.
\<close>

fun html_text :: "bool \<Rightarrow> string \<Rightarrow> string option" where
  "html_text in_comment [] = Some []"
| "html_text True (c # cs) =
     (if c = CHR ''>'' then html_text False cs else html_text True cs)"
| "html_text False (c # cs) =
     (if c = CHR ''<'' then
        (case cs of
           [] \<Rightarrow> Some [c]
         | d # ds \<Rightarrow>
             (if d = CHR ''?'' then html_text True cs
              else if d = CHR ''/'' \<or> d = CHR ''!'' \<or>
                      ((65::nat) \<le> of_char d \<and> of_char d \<le> (90::nat)) \<or>
                      ((97::nat) \<le> of_char d \<and> of_char d \<le> (122::nat))
              then None
              else map_option ((#) c) (html_text False cs)))
      else if c = CHR ''&'' \<or> c = CHR 0x0D \<or> c = CHR 0x00 then None
      else map_option ((#) c) (html_text False cs))"

subsection \<open>Playground: the page check boxes\<close>

text \<open>
  One \<^verbatim>\<open>.checkbox input[type="checkbox"]\<close> element: its \<^verbatim>\<open>value\<close> attribute and its
  \<^verbatim>\<open>checked\<close> state. The document holds them in document order.
\<close>

record checkbox =
  cb_value :: string
  cb_checked :: bool

text \<open>
  \<^verbatim>\<open>getSelectedPages\<close>: the array starts as \<^verbatim>\<open>['home']\<close>; the \<^verbatim>\<open>forEach\<close> over the
  \<^verbatim>\<open>:checked\<close> boxes pushes every value other than \<^verbatim>\<open>'home'\<close>. The loop is a
  recursion over the boxes in document order with the array as accumulator.
\<close>

fun push_selected :: "string list \<Rightarrow> checkbox list \<Rightarrow> string list" where
  "push_selected pages [] = pages"
| "push_selected pages (c # cs) =
     (if cb_checked c
      then (if cb_value c \<noteq> ''home''
            then push_selected (pages @ [cb_value c]) cs
            else push_selected pages cs)
      else push_selected pages cs)"

definition getSelectedPages :: "checkbox list \<Rightarrow> string list" where
  "getSelectedPages cbs = push_selected [''home''] cbs"

subsection \<open>Playground: state and operations\<close>

text \<open>
  The elements the playground holds in \<^verbatim>\<open>this.elements\<close>, all of them present in
  \<^verbatim>\<open>index.html\<close>, as far as it writes them: the
  description text area, the style select, the check boxes, the run button, the preview
  mode select with the class \<^verbatim>\<open>loading\<close> of its \<^verbatim>\<open>.preview-controls\<close>, the preview pane
  (the value whose serialisation was last assigned as its text, and the markup with which a
  highlighter has since replaced that text, if one has) and the address loaded into the
  preview frame.
\<close>

record playground =
  description :: string
  style :: string
  boxes :: "checkbox list"
  runButton_disabled :: bool
  runButton_text :: string
  previewMode_disabled :: bool
  previewControls_loading :: bool
  previewCode_data :: json
  previewCode_markup :: "string option"
  previewFrame_src :: "string option"

record config =
  cfg_description :: string
  cfg_style :: string
  cfg_pages :: "string list"

record website_request =
  wr_url :: string
  wr_authorization :: string
  wr_body :: config

definition pg_apiEndpoint :: string where
  "pg_apiEndpoint = ''http://api.canopus.software/aeodos''"

definition demoApiKey :: string where
  "demoApiKey = ''demo_key_123''"

text \<open>The options of \<^verbatim>\<open>#websiteStyle\<close> in \<^verbatim>\<open>index.html\<close>.\<close>

definition websiteStyle_options :: "string list" where
  "websiteStyle_options = [''modern'', ''minimal'', ''corporate'', ''creative'']"

text \<open>
  Assigning to the \<^verbatim>\<open>value\<close> of a select picks the option with that value; when there
  is none the select is left without a selection and reads as the empty string.
\<close>

definition set_select_value :: "string list \<Rightarrow> string \<Rightarrow> string" where
  "set_select_value options v = (if v \<in> set options then v else [])"

text \<open>
  \<^verbatim>\<open>updatePreviewCode\<close>: the text of the pane is replaced first, then the highlighter is
  called without any check that it exists. The state is returned also when the call raises.
\<close>

definition updatePreviewCode :: "prism \<Rightarrow> json \<Rightarrow> playground \<Rightarrow> exn option \<times> playground" where
  "updatePreviewCode p data s =
     (let s1 = s\<lparr>previewCode_data := data, previewCode_markup := None\<rparr>
      in (case p of
            PrismUndefined \<Rightarrow> (Some (ReferenceError ''Prism is not defined''), s1)
          | PrismObject api \<Rightarrow>
              (case highlightElement api of
                 None \<Rightarrow> (Some (TypeError ''Prism.highlightElement is not a function''), s1)
               | Some h \<Rightarrow>
                   (case h data of
                      Inl e \<Rightarrow> (Some e, s1)
                    | Inr markup \<Rightarrow> (None, s1\<lparr>previewCode_markup := Some markup\<rparr>)))))"

definition initial_message :: json where
  \<open>initial_message =
     JObj [(''message'',
            JStr ''Configure your website and click "Generate Website" to see the result'')]\<close>

definition setInitialState :: "prism \<Rightarrow> playground \<Rightarrow> exn option \<times> playground" where
  "setInitialState p s =
     updatePreviewCode p
       initial_message
       (s\<lparr>description := ''A modern business website with a clean design''\<rparr>)"

definition showError :: "prism \<Rightarrow> string \<Rightarrow> playground \<Rightarrow> exn option \<times> playground" where
  "showError p msg s =
     updatePreviewCode p (JObj [(''error'', JBool True), (''message'', JStr msg)]) s"

definition setPreviewLoading :: "bool \<Rightarrow> playground \<Rightarrow> playground" where
  "setPreviewLoading loading s =
     (if loading
      then s\<lparr>previewControls_loading := True, previewMode_disabled := True\<rparr>
      else s\<lparr>previewControls_loading := False, previewMode_disabled := False\<rparr>)"

definition resetPlayground :: "prism \<Rightarrow> playground \<Rightarrow> exn option \<times> playground" where
  "resetPlayground p s =
     setInitialState p
       (s\<lparr>description := [],
          style := set_select_value websiteStyle_options ''modern'',
          boxes := map (\<lambda>c. c\<lparr>cb_checked := (cb_value c = ''home'')\<rparr>) (boxes s)\<rparr>)"

text \<open>
  \<^verbatim>\<open>generateWebsite\<close> up to its first \<^verbatim>\<open>await\<close>: the button is disabled and relabelled,
  the preview is marked as loading, the configuration is read off the form and the one
  request is issued.
\<close>

definition generateWebsite_begin :: "playground \<Rightarrow> playground \<times> website_request" where
  "generateWebsite_begin s =
     (let s1 = setPreviewLoading True
                 (s\<lparr>runButton_disabled := True, runButton_text := ''Generating...''\<rparr>)
      in (s1,
          \<lparr>wr_url = pg_apiEndpoint @ ''/generate/website'',
           wr_authorization = ''Bearer '' @ demoApiKey,
           wr_body = \<lparr>cfg_description = description s1, cfg_style = style s1,
                      cfg_pages = getSelectedPages (boxes s1)\<rparr>\<rparr>))"

text \<open>
  The rest of the \<^verbatim>\<open>try\<close> block once the request has settled: what it raised, if
  anything, and the state at that point.
\<close>

definition playground_response :: "prism \<Rightarrow> fetch_outcome \<Rightarrow> playground \<Rightarrow> exn option \<times> playground" where
  "playground_response p outcome s =
     (case outcome of
        Rejected e \<Rightarrow> (Some e, s)
      | Responded ok b \<Rightarrow>
          (case b of
             Malformed msg \<Rightarrow> (Some (SyntaxError msg), s)
           | Parsed data \<Rightarrow>
               (if ok then
                  (case updatePreviewCode p data s of
                     (Some e, s1) \<Rightarrow> (Some e, s1)
                   | (None, s1) \<Rightarrow>
                       (case get_prop data ''previewUrl'' of
                          Inl e \<Rightarrow> (Some e, s1)
                        | Inr None \<Rightarrow> (None, s1)
                        | Inr (Some u) \<Rightarrow>
                            (if truthy (Some u) then
                               (case ToString u of
                                  Inl e \<Rightarrow> (Some e, s1)
                                | Inr src \<Rightarrow> (None, s1\<lparr>previewFrame_src := Some src\<rparr>))
                             else (None, s1))))
                else (Some (throw_detail ''Generation failed'' data), s))))"

text \<open>
  The handler from the moment the request settles: the \<^verbatim>\<open>try\<close> block, the \<^verbatim>\<open>catch\<close>
  that hands the message of what was raised to \<^verbatim>\<open>showError\<close>, and the \<^verbatim>\<open>finally\<close> that
  enables the button again. The first component is the exception that leaves the handler.
\<close>

definition generateWebsite_settle :: "prism \<Rightarrow> fetch_outcome \<Rightarrow> playground \<Rightarrow> exn option \<times> playground" where
  "generateWebsite_settle p outcome s =
     (let (raised, s1) = playground_response p outcome s;
          (uncaught, s2) =
            (case raised of
               None \<Rightarrow> (None, s1)
             | Some e \<Rightarrow> showError p (message e) s1)
      in (uncaught,
          setPreviewLoading False
            (s2\<lparr>runButton_disabled := False, runButton_text := ''Generate Website''\<rparr>)))"


text \<open>A settled request counts as failed when it was rejected or its response is not ok.\<close>

fun failed :: "fetch_outcome \<Rightarrow> bool" where
  "failed (Rejected e) = True"
| "failed (Responded ok b) = (\<not> ok)"

text \<open>
  The state the constructor leaves over the playground markup of \<^verbatim>\<open>index.html\<close>: the
  default description, the first style, only the home box checked, the button enabled. On
  \<^verbatim>\<open>index.html\<close> itself the constructor is not called: the section with the id
  \<^verbatim>\<open>playground\<close> is what \<^verbatim>\<open>window.playground\<close> names, so the guard
  \<^verbatim>\<open>!window.playground\<close> around the construction is false there.
\<close>

definition loaded_playground :: playground where
  "loaded_playground =
     \<lparr>description = ''A modern business website with a clean design'',
      style = ''modern'',
      boxes = [\<lparr>cb_value = ''home'', cb_checked = True\<rparr>,
               \<lparr>cb_value = ''about'', cb_checked = False\<rparr>,
               \<lparr>cb_value = ''contact'', cb_checked = False\<rparr>,
               \<lparr>cb_value = ''services'', cb_checked = False\<rparr>],
      runButton_disabled = False,
      runButton_text = ''Generate Website'',
      previewMode_disabled = False,
      previewControls_loading = False,
      previewCode_data = initial_message,
      previewCode_markup = None,
      previewFrame_src = None\<rparr>"

subsection \<open>Key-request modal\<close>

text \<open>
  A \<^verbatim>\<open>.form-group\<close> of the modal form: whether it carries the class \<^verbatim>\<open>error\<close>, and the
  texts of the \<^verbatim>\<open>.error-message\<close> elements appended to it, first child first.
\<close>

record form_group =
  group_error :: bool
  group_messages :: "string list"

text \<open>
  The form that \<^verbatim>\<open>showApiKeyModal\<close> injects: the two inputs with their groups, and the
  submit button with its \<^verbatim>\<open>disabled\<close> property (absent in the injected markup), its class
  \<^verbatim>\<open>loading\<close>, the text of its \<^verbatim>\<open>span\<close> and the spinner inside it.
\<close>

record keyform =
  email_value :: jsstring
  company_value :: jsstring
  email_group :: form_group
  company_group :: form_group
  submit_disabled :: bool
  submit_loading :: bool
  submit_text :: string
  spinner_display :: string

text \<open>
  The modal around it: the form object the handler holds on to (\<^verbatim>\<open>e.target\<close>), whether
  that form is still in the document (\<^verbatim>\<open>showSuccessMessage\<close> replaces the content that
  holds it), the banners inserted at the top of the form, newest first, and the key as it
  is interpolated, not escaped, into the markup of the success view (what the page then
  shows is that markup as parsed). The timers that remove a banner after five seconds are not part of
  the model.
\<close>

record keymodal =
  form :: keyform
  form_in_document :: bool
  banners :: "string list"
  key_markup :: "string option"

datatype field = EmailField | CompanyField

record keyrequest =
  rq_url :: string
  rq_email :: jsstring
  rq_company_name :: jsstring

definition ui_apiEndpoint :: string where
  "ui_apiEndpoint = ''http://api.canopus.software/aeodos''"

definition annotate :: "string \<Rightarrow> form_group \<Rightarrow> form_group" where
  "annotate msg g = g\<lparr>group_error := True, group_messages := group_messages g @ [msg]\<rparr>"

text \<open>\<^verbatim>\<open>showFieldError\<close>: the group of the field gets the class and one more message.\<close>

fun showFieldError :: "field \<Rightarrow> string \<Rightarrow> keyform \<Rightarrow> keyform" where
  "showFieldError EmailField msg f = f\<lparr>email_group := annotate msg (email_group f)\<rparr>"
| "showFieldError CompanyField msg f = f\<lparr>company_group := annotate msg (company_group f)\<rparr>"

text \<open>
  \<^verbatim>\<open>clearErrors\<close>: every group with the class \<^verbatim>\<open>error\<close> loses the class and its first
  \<^verbatim>\<open>.error-message\<close>, if it has one.
\<close>

definition clear_group :: "form_group \<Rightarrow> form_group" where
  "clear_group g =
     (if group_error g
      then g\<lparr>group_error := False,
             group_messages := (case group_messages g of [] \<Rightarrow> [] | m # ms \<Rightarrow> ms)\<rparr>
      else g)"

definition clearErrors :: "keyform \<Rightarrow> keyform" where
  "clearErrors f =
     f\<lparr>email_group := clear_group (email_group f),
       company_group := clear_group (company_group f)\<rparr>"

text \<open>
  \<^verbatim>\<open>validateForm\<close>: both checks always run; the result is the flag together with the form
  as annotated.
\<close>

definition validateForm :: "keyform \<Rightarrow> bool \<times> keyform" where
  "validateForm f =
     (let (isValid1, f1) =
            (if \<not> isValidEmail (email_value f)
             then (False, showFieldError EmailField ''Please enter a valid business email'' f)
             else (True, f))
      in (if length (company_value f1) < 2
          then (False, showFieldError CompanyField ''Company name is too short'' f1)
          else (isValid1, f1)))"

text \<open>
  \<^verbatim>\<open>setFormLoading\<close>: class, spinner and label of the submit button. It does not write
  the button's \<^verbatim>\<open>disabled\<close> property.
\<close>

definition setFormLoading :: "bool \<Rightarrow> keyform \<Rightarrow> keyform" where
  "setFormLoading loading f =
     (if loading
      then f\<lparr>submit_loading := True, spinner_display := ''block'',
             submit_text := ''Generating...''\<rparr>
      else f\<lparr>submit_loading := False, spinner_display := ''none'',
             submit_text := ''Generate API Key''\<rparr>)"

text \<open>
  \<^verbatim>\<open>showSuccessMessage\<close>: the key is interpolated into the new content of the modal
  (\<^verbatim>\<open>undefined\<close> prints as such), which takes the form out of the document.
\<close>

definition showSuccessMessage :: "json option \<Rightarrow> keymodal \<Rightarrow> exn + keymodal" where
  "showSuccessMessage apiKey m =
     (case (case apiKey of None \<Rightarrow> Inr ''undefined'' | Some k \<Rightarrow> ToString k) of
        Inl e \<Rightarrow> Inl e
      | Inr k \<Rightarrow> Inr (m\<lparr>form_in_document := False, key_markup := Some k\<rparr>))"

text \<open>
  \<^verbatim>\<open>showErrorMessage\<close>: the banner goes before the first child of the element with id
  \<^verbatim>\<open>apiKeyForm\<close>; when the document has no such element the call raises.
\<close>

definition showErrorMessage :: "string \<Rightarrow> keymodal \<Rightarrow> exn + keymodal" where
  "showErrorMessage msg m =
     (if form_in_document m
      then Inr (m\<lparr>banners := msg # banners m\<rparr>)
      else Inl (TypeError (''Cannot read properties of null (reading '' @ [CHR 0x27] @
                           ''insertBefore'' @ [CHR 0x27] @ '')'')))"

text \<open>
  \<^verbatim>\<open>handleApiKeyGeneration\<close> up to its first \<^verbatim>\<open>await\<close>: clear, validate, and either
  return at once or show the loading state and issue the request.
\<close>

definition handleApiKeyGeneration_begin :: "keymodal \<Rightarrow> keymodal \<times> keyrequest option" where
  "handleApiKeyGeneration_begin m =
     (let (isValid, f) = validateForm (clearErrors (form m))
      in (if \<not> isValid then (m\<lparr>form := f\<rparr>, None)
          else (m\<lparr>form := setFormLoading True f\<rparr>,
                Some \<lparr>rq_url = ui_apiEndpoint @ ''/keys/generate'',
                      rq_email = email_value f,
                      rq_company_name = company_value f\<rparr>)))"

text \<open>
  The rest of the \<^verbatim>\<open>try\<close> block once the request has settled: it either raises or leaves
  the success view.
\<close>

definition key_response :: "fetch_outcome \<Rightarrow> keymodal \<Rightarrow> exn + keymodal" where
  "key_response outcome m =
     (case outcome of
        Rejected e \<Rightarrow> Inl e
      | Responded ok b \<Rightarrow>
          (case b of
             Malformed msg \<Rightarrow> Inl (SyntaxError msg)
           | Parsed data \<Rightarrow>
               (if \<not> ok then Inl (throw_detail ''Failed to generate API key'' data)
                else (case get_prop data ''api_key'' of
                        Inl e \<Rightarrow> Inl e
                      | Inr k \<Rightarrow> showSuccessMessage k m))))"

text \<open>
  The handler from the moment the request settles: the \<^verbatim>\<open>try\<close> block, the \<^verbatim>\<open>catch\<close>
  that shows the message of whatever was raised, and the \<^verbatim>\<open>finally\<close> that ends the
  loading state. An exception raised inside the \<^verbatim>\<open>catch\<close> leaves the handler after the
  \<^verbatim>\<open>finally\<close> has run.
\<close>

definition handleApiKeyGeneration_settle :: "fetch_outcome \<Rightarrow> keymodal \<Rightarrow> exn option \<times> keymodal" where
  "handleApiKeyGeneration_settle outcome m =
     (let (uncaught, m1) =
            (case key_response outcome m of
               Inr m' \<Rightarrow> (None, m')
             | Inl e \<Rightarrow>
                 (case showErrorMessage (message e) m of
                    Inr m' \<Rightarrow> (None, m')
                  | Inl e' \<Rightarrow> (Some e', m)))
      in (uncaught, m1\<lparr>form := setFormLoading False (form m1)\<rparr>))"

text \<open>
  One whole run of the handler against a network that answers \<^verbatim>\<open>net\<close>: the exception
  that escapes, the modal afterwards and the requests issued.
\<close>

definition handleApiKeyGeneration ::
  "(keyrequest \<Rightarrow> fetch_outcome) \<Rightarrow> keymodal \<Rightarrow> exn option \<times> keymodal \<times> keyrequest list" where
  "handleApiKeyGeneration net m =
     (case handleApiKeyGeneration_begin m of
        (m1, None) \<Rightarrow> (None, m1, [])
      | (m1, Some rq) \<Rightarrow>
          (let (uncaught, m2) = handleApiKeyGeneration_settle (net rq) m1
           in (uncaught, m2, [rq])))"

text \<open>
  The modal as \<^verbatim>\<open>showApiKeyModal\<close> leaves it, with the visitor's input typed into the two
  fields: no group is marked, the button is enabled and idle.
\<close>

definition injected_form :: "jsstring \<Rightarrow> jsstring \<Rightarrow> keyform" where
  "injected_form email company =
     \<lparr>email_value = email, company_value = company,
      email_group = \<lparr>group_error = False, group_messages = []\<rparr>,
      company_group = \<lparr>group_error = False, group_messages = []\<rparr>,
      submit_disabled = False, submit_loading = False,
      submit_text = ''Generate API Key'', spinner_display = ''none''\<rparr>"

definition opened_modal :: "jsstring \<Rightarrow> jsstring \<Rightarrow> keymodal" where
  "opened_modal email company =
     \<lparr>form = injected_form email company, form_in_document = True,
      banners = [], key_markup = None\<rparr>"


text \<open>
  The body of the error response (400 Bad Request) as the API reference of the repository
  documents it (\<^verbatim>\<open>docs/api-reference/endpoints/website/generate.md\<close>).
\<close>

definition documented_error_body :: json where
  "documented_error_body =
     JObj [(''error'', JBool True),
           (''code'', JStr ''INVALID_REQUEST''),
           (''message'', JStr ''Invalid request parameters''),
           (''details'', JObj [(''description'', JStr ''Description is required'')])]"


subsection \<open>Code-example switcher: the store\<close>

text \<open>
  The three snippets of one language, and the literals of \<^verbatim>\<open>this.codeExamples\<close>. They
  are template literals: a backslash at the end of a line continues the line, so the
  \<^verbatim>\<open>curl\<close> commands hold neither those backslashes nor the line breaks after them.
\<close>

record examples =
  authentication :: string
  websiteGeneration :: string
  projectStatus :: string

definition curl_authentication :: string where
  \<open>curl_authentication =
     ''curl -X POST http://api.canopus.software/Aoede/keys/generate -H "Content-Type: application/json" -d '{\<newline>'' @
     ''    "email": "your@email.com",\<newline>'' @
     ''    "company_name": "Your Company"\<newline>'' @
     ''}'' @
     [CHR 0x27]\<close>

definition curl_websiteGeneration :: string where
  \<open>curl_websiteGeneration =
     ''curl -X POST http://api.canopus.software/Aoede/generate/website -H "Authorization: Bearer YOUR_API_KEY" -H "Content-Type: application/json" -d '{\<newline>'' @
     ''    "description": "A modern business website",\<newline>'' @
     ''    "style": "minimal",\<newline>'' @
     ''    "pages": ["home", "about", "contact"]\<newline>'' @
     ''}'' @
     [CHR 0x27]\<close>

definition curl_projectStatus :: string where
  \<open>curl_projectStatus =
     ''curl http://api.canopus.software/Aoede/projects/PROJECT_ID/status -H "Authorization: Bearer YOUR_API_KEY"''\<close>

definition python_authentication :: string where
  \<open>python_authentication =
     ''import requests\<newline>'' @
     ''\<newline>'' @
     ''response = requests.post(\<newline>'' @
     ''    'http://api.canopus.software/Aoede/keys/generate',\<newline>'' @
     ''    json={\<newline>'' @
     ''        'email': 'your@email.com',\<newline>'' @
     ''        'company_name': 'Your Company'\<newline>'' @
     ''    }\<newline>'' @
     '')\<newline>'' @
     ''\<newline>'' @
     ''api_key = response.json()['api_key']''\<close>

definition python_websiteGeneration :: string where
  \<open>python_websiteGeneration =
     ''import requests\<newline>'' @
     ''\<newline>'' @
     ''response = requests.post(\<newline>'' @
     ''    'http://api.canopus.software/Aoede/generate/website',\<newline>'' @
     ''    headers={'Authorization': 'Bearer YOUR_API_KEY'},\<newline>'' @
     ''    json={\<newline>'' @
     ''        'description': 'A modern business website',\<newline>'' @
     ''        'style': 'minimal',\<newline>'' @
     ''        'pages': ['home', 'about', 'contact']\<newline>'' @
     ''    }\<newline>'' @
     '')\<newline>'' @
     ''\<newline>'' @
     ''project = response.json()''\<close>

definition python_projectStatus :: string where
  \<open>python_projectStatus =
     ''import requests\<newline>'' @
     ''\<newline>'' @
     ''response = requests.get(\<newline>'' @
     ''    'http://api.canopus.software/Aoede/projects/PROJECT_ID/status',\<newline>'' @
     ''    headers={'Authorization': 'Bearer YOUR_API_KEY'}\<newline>'' @
     '')\<newline>'' @
     ''\<newline>'' @
     ''status = response.json()''\<close>

definition javascript_authentication :: string where
  \<open>javascript_authentication =
     ''// Using fetch API\<newline>'' @
     ''const response = await fetch('http://api.canopus.software/Aoede/keys/generate', {\<newline>'' @
     ''    method: 'POST',\<newline>'' @
     ''    headers: {\<newline>'' @
     ''        'Content-Type': 'application/json'\<newline>'' @
     ''    },\<newline>'' @
     ''    body: JSON.stringify({\<newline>'' @
     ''        email: 'your@email.com',\<newline>'' @
     ''        company_name: 'Your Company'\<newline>'' @
     ''    })\<newline>'' @
     ''});\<newline>'' @
     ''\<newline>'' @
     ''const { api_key } = await response.json();''\<close>

definition javascript_websiteGeneration :: string where
  \<open>javascript_websiteGeneration =
     ''// Generate website\<newline>'' @
     ''const response = await fetch('http://api.canopus.software/Aoede/generate/website', {\<newline>'' @
     ''    method: 'POST',\<newline>'' @
     ''    headers: {\<newline>'' @
     ''        'Authorization': 'Bearer YOUR_API_KEY',\<newline>'' @
     ''        'Content-Type': 'application/json'\<newline>'' @
     ''    },\<newline>'' @
     ''    body: JSON.stringify({\<newline>'' @
     ''        description: 'A modern business website',\<newline>'' @
     ''        style: 'minimal',\<newline>'' @
     ''        pages: ['home', 'about', 'contact']\<newline>'' @
     ''    })\<newline>'' @
     ''});\<newline>'' @
     ''\<newline>'' @
     ''const project = await response.json();''\<close>

definition javascript_projectStatus :: string where
  \<open>javascript_projectStatus =
     ''// Check project status\<newline>'' @
     ''const response = await fetch(\<newline>'' @
     ''    'http://api.canopus.software/Aoede/projects/PROJECT_ID/status',\<newline>'' @
     ''    {\<newline>'' @
     ''        headers: {\<newline>'' @
     ''            'Authorization': 'Bearer YOUR_API_KEY'\<newline>'' @
     ''        }\<newline>'' @
     ''    }\<newline>'' @
     '');\<newline>'' @
     ''\<newline>'' @
     ''const status = await response.json();''\<close>

definition php_authentication :: string where
  \<open>php_authentication =
     ''<?php\<newline>'' @
     ''$ch = curl_init('http://api.canopus.software/Aoede/keys/generate');\<newline>'' @
     ''$data = [\<newline>'' @
     ''    'email' => 'your@email.com',\<newline>'' @
     ''    'company_name' => 'Your Company'\<newline>'' @
     ''];\<newline>'' @
     ''\<newline>'' @
     ''curl_setopt_array($ch, [\<newline>'' @
     ''    CURLOPT_POST => true,\<newline>'' @
     ''    CURLOPT_RETURNTRANSFER => true,\<newline>'' @
     ''    CURLOPT_HTTPHEADER => ['Content-Type: application/json'],\<newline>'' @
     ''    CURLOPT_POSTFIELDS => json_encode($data)\<newline>'' @
     '']);\<newline>'' @
     ''\<newline>'' @
     ''$response = curl_exec($ch);\<newline>'' @
     ''$result = json_decode($response, true);\<newline>'' @
     ''$api_key = $result['api_key'];\<newline>'' @
     ''curl_close($ch);''\<close>

definition php_websiteGeneration :: string where
  \<open>php_websiteGeneration =
     ''<?php\<newline>'' @
     ''$ch = curl_init('http://api.canopus.software/Aoede/generate/website');\<newline>'' @
     ''$data = [\<newline>'' @
     ''    'description' => 'A modern business website',\<newline>'' @
     ''    'style' => 'minimal',\<newline>'' @
     ''    'pages' => ['home', 'about', 'contact']\<newline>'' @
     ''];\<newline>'' @
     ''\<newline>'' @
     ''curl_setopt_array($ch, [\<newline>'' @
     ''    CURLOPT_POST => true,\<newline>'' @
     ''    CURLOPT_RETURNTRANSFER => true,\<newline>'' @
     ''    CURLOPT_HTTPHEADER => [\<newline>'' @
     ''        'Authorization: Bearer YOUR_API_KEY',\<newline>'' @
     ''        'Content-Type: application/json'\<newline>'' @
     ''    ],\<newline>'' @
     ''    CURLOPT_POSTFIELDS => json_encode($data)\<newline>'' @
     '']);\<newline>'' @
     ''\<newline>'' @
     ''$response = curl_exec($ch);\<newline>'' @
     ''$project = json_decode($response, true);\<newline>'' @
     ''curl_close($ch);''\<close>

definition php_projectStatus :: string where
  \<open>php_projectStatus =
     ''<?php\<newline>'' @
     ''$ch = curl_init('http://api.canopus.software/Aoede/projects/PROJECT_ID/status');\<newline>'' @
     ''\<newline>'' @
     ''curl_setopt_array($ch, [\<newline>'' @
     ''    CURLOPT_RETURNTRANSFER => true,\<newline>'' @
     ''    CURLOPT_HTTPHEADER => ['Authorization: Bearer YOUR_API_KEY']\<newline>'' @
     '']);\<newline>'' @
     ''\<newline>'' @
     ''$response = curl_exec($ch);\<newline>'' @
     ''$status = json_decode($response, true);\<newline>'' @
     ''curl_close($ch);''\<close>

definition go_authentication :: string where
  \<open>go_authentication =
     ''package main\<newline>'' @
     ''\<newline>'' @
     ''import (\<newline>'' @
     ''    "bytes"\<newline>'' @
     ''    "encoding/json"\<newline>'' @
     ''    "net/http"\<newline>'' @
     '')\<newline>'' @
     ''\<newline>'' @
     ''func main() {\<newline>'' @
     ''    data := map[string]string{\<newline>'' @
     ''        "email": "your@email.com",\<newline>'' @
     ''        "company_name": "Your Company",\<newline>'' @
     ''    }\<newline>'' @
     ''    \<newline>'' @
     ''    jsonData, _ := json.Marshal(data)\<newline>'' @
     ''    \<newline>'' @
     ''    req, _ := http.NewRequest("POST", \<newline>'' @
     ''        "http://api.canopus.software/Aoede/keys/generate",\<newline>'' @
     ''        bytes.NewBuffer(jsonData))\<newline>'' @
     ''        \<newline>'' @
     ''    req.Header.Set("Content-Type", "application/json")\<newline>'' @
     ''    \<newline>'' @
     ''    client := &http.Client{}\<newline>'' @
     ''    resp, _ := client.Do(req)\<newline>'' @
     ''    \<newline>'' @
     ''    var result map[string]interface{}\<newline>'' @
     ''    json.NewDecoder(resp.Body).Decode(&result)\<newline>'' @
     ''    apiKey := result["api_key"].(string)\<newline>'' @
     ''}''\<close>

definition go_websiteGeneration :: string where
  \<open>go_websiteGeneration =
     ''package main\<newline>'' @
     ''\<newline>'' @
     ''import (\<newline>'' @
     ''    "bytes"\<newline>'' @
     ''    "encoding/json"\<newline>'' @
     ''    "net/http"\<newline>'' @
     '')\<newline>'' @
     ''\<newline>'' @
     ''func main() {\<newline>'' @
     ''    data := map[string]interface{}{\<newline>'' @
     ''        "description": "A modern business website",\<newline>'' @
     ''        "style": "minimal",\<newline>'' @
     ''        "pages": []string{"home", "about", "contact"},\<newline>'' @
     ''    }\<newline>'' @
     ''    \<newline>'' @
     ''    jsonData, _ := json.Marshal(data)\<newline>'' @
     ''    \<newline>'' @
     ''    req, _ := http.NewRequest("POST",\<newline>'' @
     ''        "http://api.canopus.software/Aoede/generate/website",\<newline>'' @
     ''        bytes.NewBuffer(jsonData))\<newline>'' @
     ''        \<newline>'' @
     ''    req.Header.Set("Content-Type", "application/json")\<newline>'' @
     ''    req.Header.Set("Authorization", "Bearer YOUR_API_KEY")\<newline>'' @
     ''    \<newline>'' @
     ''    client := &http.Client{}\<newline>'' @
     ''    resp, _ := client.Do(req)\<newline>'' @
     ''    \<newline>'' @
     ''    var project map[string]interface{}\<newline>'' @
     ''    json.NewDecoder(resp.Body).Decode(&project)\<newline>'' @
     ''}''\<close>

definition go_projectStatus :: string where
  \<open>go_projectStatus =
     ''package main\<newline>'' @
     ''\<newline>'' @
     ''import (\<newline>'' @
     ''    "encoding/json"\<newline>'' @
     ''    "net/http"\<newline>'' @
     '')\<newline>'' @
     ''\<newline>'' @
     ''func main() {\<newline>'' @
     ''    req, _ := http.NewRequest("GET",\<newline>'' @
     ''        "http://api.canopus.software/Aoede/projects/PROJECT_ID/status",\<newline>'' @
     ''        nil)\<newline>'' @
     ''        \<newline>'' @
     ''    req.Header.Set("Authorization", "Bearer YOUR_API_KEY")\<newline>'' @
     ''    \<newline>'' @
     ''    client := &http.Client{}\<newline>'' @
     ''    resp, _ := client.Do(req)\<newline>'' @
     ''    \<newline>'' @
     ''    var status map[string]interface{}\<newline>'' @
     ''    json.NewDecoder(resp.Body).Decode(&status)\<newline>'' @
     ''}''\<close>

definition codeExamples :: "(string \<times> examples) list" where
  "codeExamples =
     [(''curl'', \<lparr>authentication = curl_authentication,
                 websiteGeneration = curl_websiteGeneration,
                 projectStatus = curl_projectStatus\<rparr>),
      (''python'', \<lparr>authentication = python_authentication,
                   websiteGeneration = python_websiteGeneration,
                   projectStatus = python_projectStatus\<rparr>),
      (''javascript'', \<lparr>authentication = javascript_authentication,
                       websiteGeneration = javascript_websiteGeneration,
                       projectStatus = javascript_projectStatus\<rparr>),
      (''php'', \<lparr>authentication = php_authentication,
                websiteGeneration = php_websiteGeneration,
                projectStatus = php_projectStatus\<rparr>),
      (''go'', \<lparr>authentication = go_authentication,
               websiteGeneration = go_websiteGeneration,
               projectStatus = go_projectStatus\<rparr>)]"

text \<open>The values of the options of \<^verbatim>\<open>#languageSelect\<close> in \<^verbatim>\<open>index.html\<close>.\<close>

definition languageSelect_options :: "string list" where
  "languageSelect_options = [''curl'', ''python'', ''javascript'', ''php'', ''go'']"

subsection \<open>Code-example switcher: state and operations\<close>

text \<open>
  A \<^verbatim>\<open>code\<close> element of a panel: the text assigned to it, the markup a highlighter has
  put in its place (none while it is plain text) and its inline style.
\<close>

record code_block =
  block_text :: string
  block_markup :: "string option"
  block_style :: "string \<rightharpoonup> string"

text \<open>
  What \<^verbatim>\<open>document.getElementById\<close> finds for one of the three ids: the block, or
  nothing once \<^verbatim>\<open>handleUpdateError\<close> has replaced the content of its parent by the notice
  "Syntax highlighting temporarily unavailable".
\<close>

datatype slot = Block code_block | Notice

record switcher =
  currentLanguage :: string
  lastLanguage :: string
  isLoading :: bool
  authCode :: slot
  generateCode :: slot
  statusCode :: slot
  selector_loading :: bool
  selector_language :: string

fun present :: "slot \<Rightarrow> bool" where
  "present (Block b) = True"
| "present Notice = False"

fun on_block :: "(code_block \<Rightarrow> code_block) \<Rightarrow> slot \<Rightarrow> slot" where
  "on_block f (Block b) = Block (f b)"
| "on_block f Notice = Notice"

text \<open>\<^verbatim>\<open>element.textContent = text\<close>; the element may be \<^verbatim>\<open>null\<close>.\<close>

fun set_textContent :: "string \<Rightarrow> slot \<Rightarrow> exn + slot" where
  "set_textContent t (Block b) = Inr (Block (b\<lparr>block_text := t, block_markup := None\<rparr>))"
| "set_textContent t Notice =
     Inl (TypeError (''Cannot set properties of null (setting '' @ [CHR 0x27] @
                     ''textContent'' @ [CHR 0x27] @ '')''))"

definition setLoading :: "bool \<Rightarrow> switcher \<Rightarrow> switcher" where
  "setLoading loading m =
     (if loading
      then m\<lparr>isLoading := loading, selector_loading := True\<rparr>
      else m\<lparr>isLoading := loading, selector_loading := False\<rparr>)"

text \<open>\<^verbatim>\<open>toUpperCase\<close> on the letters a to z, which is all the option values hold.\<close>

definition toUpperCase :: "string \<Rightarrow> string" where
  "toUpperCase t =
     map (\<lambda>c. if (97::nat) \<le> of_char c \<and> of_char c \<le> (122::nat)
              then char_of (of_char c - (32::nat)) else c) t"

definition updateLanguageIndicator :: "switcher \<Rightarrow> switcher" where
  "updateLanguageIndicator m = m\<lparr>selector_language := toUpperCase (currentLanguage m)\<rparr>"

text \<open>\<^verbatim>\<open>applyBasicFormatting\<close>: five style properties on every code block.\<close>

definition basic_formatting :: "code_block \<Rightarrow> code_block" where
  "basic_formatting b =
     b\<lparr>block_style := (block_style b)
          (''display'' \<mapsto> ''block'', ''padding'' \<mapsto> ''1em'', ''background'' \<mapsto> ''#f8fafc'',
           ''borderRadius'' \<mapsto> ''8px'', ''whiteSpace'' \<mapsto> ''pre'')\<rparr>"

definition applyBasicFormatting :: "switcher \<Rightarrow> switcher" where
  "applyBasicFormatting m =
     m\<lparr>authCode := on_block basic_formatting (authCode m),
       generateCode := on_block basic_formatting (generateCode m),
       statusCode := on_block basic_formatting (statusCode m)\<rparr>"

text \<open>
  \<^verbatim>\<open>handleUpdateError\<close>: each of the three elements that is still there has the content of
  its parent replaced by the notice, which removes the element.
\<close>

fun replace_by_notice :: "slot \<Rightarrow> slot" where
  "replace_by_notice (Block b) = Notice"
| "replace_by_notice Notice = Notice"

definition handleUpdateError :: "switcher \<Rightarrow> switcher" where
  "handleUpdateError m =
     m\<lparr>authCode := replace_by_notice (authCode m),
       generateCode := replace_by_notice (generateCode m),
       statusCode := replace_by_notice (statusCode m)\<rparr>"

text \<open>
  \<^verbatim>\<open>Prism.highlightAll()\<close> over the blocks of the three panels in document order: the
  opaque highlighter turns the text of a block into markup; when it raises, the blocks
  before it stay highlighted.
\<close>

fun highlight_slot :: "(string \<Rightarrow> exn + string) \<Rightarrow> slot \<Rightarrow> exn + slot" where
  "highlight_slot h (Block b) =
     (case h (block_text b) of
        Inl e \<Rightarrow> Inl e
      | Inr markup \<Rightarrow> Inr (Block (b\<lparr>block_markup := Some markup\<rparr>)))"
| "highlight_slot h Notice = Inr Notice"

definition run_highlightAll :: "(string \<Rightarrow> exn + string) \<Rightarrow> switcher \<Rightarrow> exn option \<times> switcher" where
  "run_highlightAll h m =
     (case highlight_slot h (authCode m) of
        Inl e \<Rightarrow> (Some e, m)
      | Inr a \<Rightarrow>
          (case highlight_slot h (generateCode m) of
             Inl e \<Rightarrow> (Some e, m\<lparr>authCode := a\<rparr>)
           | Inr g \<Rightarrow>
               (case highlight_slot h (statusCode m) of
                  Inl e \<Rightarrow> (Some e, m\<lparr>authCode := a, generateCode := g\<rparr>)
                | Inr st \<Rightarrow> (None, m\<lparr>authCode := a, generateCode := g, statusCode := st\<rparr>))))"

text \<open>
  The test \<^verbatim>\<open>typeof Prism !== 'undefined' && Prism.highlightAll\<close>: the entry point to
  call, if there is one.
\<close>

fun available_highlightAll :: "prism \<Rightarrow> (string \<Rightarrow> exn + string) option" where
  "available_highlightAll PrismUndefined = None"
| "available_highlightAll (PrismObject api) = highlightAll api"

text \<open>
  The \<^verbatim>\<open>try\<close> block of \<^verbatim>\<open>updateCodeExamples\<close>: the three assignments, then the
  highlighter or the fallback. It returns what it raised, if anything, and the state
  reached.
\<close>

definition update_try :: "prism \<Rightarrow> examples \<Rightarrow> switcher \<Rightarrow> exn option \<times> switcher" where
  "update_try p ex m =
     (case set_textContent (authentication ex) (authCode m) of
        Inl e \<Rightarrow> (Some e, m)
      | Inr a \<Rightarrow>
          (case set_textContent (websiteGeneration ex) (generateCode m) of
             Inl e \<Rightarrow> (Some e, m\<lparr>authCode := a\<rparr>)
           | Inr g \<Rightarrow>
               (case set_textContent (projectStatus ex) (statusCode m) of
                  Inl e \<Rightarrow> (Some e, m\<lparr>authCode := a, generateCode := g\<rparr>)
                | Inr st \<Rightarrow>
                    (let m1 = m\<lparr>authCode := a, generateCode := g, statusCode := st\<rparr>
                     in (case available_highlightAll p of
                           Some h \<Rightarrow> run_highlightAll h m1
                         | None \<Rightarrow> (None, applyBasicFormatting m1))))))"

text \<open>
  The body of \<^verbatim>\<open>updateCodeExamples\<close> for an entry that was found: whatever the \<^verbatim>\<open>try\<close>
  block raises is caught and answered by \<^verbatim>\<open>handleUpdateError\<close>.
\<close>

definition update_with :: "prism \<Rightarrow> examples \<Rightarrow> switcher \<Rightarrow> switcher" where
  "update_with p ex m =
     (case update_try p ex m of
        (None, m1) \<Rightarrow> m1
      | (Some e, m1) \<Rightarrow> handleUpdateError m1)"

text \<open>
  The store is an object literal, so \<^verbatim>\<open>this.codeExamples[key]\<close> also finds what
  \<^verbatim>\<open>Object.prototype\<close> provides under these names. Each of them is a function or an object,
  hence truthy, and has none of the three properties.
\<close>

definition object_prototype_keys :: "string list" where
  "object_prototype_keys =
     [''constructor'', ''hasOwnProperty'', ''isPrototypeOf'', ''propertyIsEnumerable'',
      ''toLocaleString'', ''toString'', ''valueOf'', ''__proto__'',
      ''__defineGetter__'', ''__defineSetter__'', ''__lookupGetter__'', ''__lookupSetter__'']"

text \<open>
  \<^verbatim>\<open>updateCodeExamples\<close>: nothing happens for a key under which nothing is found. For an
  inherited member the three properties read as \<^verbatim>\<open>undefined\<close>, and assigning that to
  \<^verbatim>\<open>textContent\<close> empties the element.
\<close>

definition updateCodeExamples :: "prism \<Rightarrow> switcher \<Rightarrow> switcher" where
  "updateCodeExamples p m =
     (case map_of codeExamples (currentLanguage m) of
        Some ex \<Rightarrow> update_with p ex m
      | None \<Rightarrow>
          (if currentLanguage m \<in> set object_prototype_keys
           then update_with p \<lparr>authentication = [], websiteGeneration = [], projectStatus = []\<rparr> m
           else m))"

text \<open>The fade of \<^verbatim>\<open>animateLanguageChange\<close>, on the blocks that are in the panels.\<close>

definition fade_out :: "switcher \<Rightarrow> switcher" where
  "fade_out m =
     (let f = (\<lambda>b. b\<lparr>block_style := (block_style b)
                 (''transition'' \<mapsto> ''opacity 0.3s ease'', ''opacity'' \<mapsto> ''0'')\<rparr>)
      in m\<lparr>authCode := on_block f (authCode m),
           generateCode := on_block f (generateCode m),
           statusCode := on_block f (statusCode m)\<rparr>)"

definition fade_in :: "switcher \<Rightarrow> switcher" where
  "fade_in m =
     (let f = (\<lambda>b. b\<lparr>block_style := (block_style b)(''opacity'' \<mapsto> ''1'')\<rparr>)
      in m\<lparr>authCode := on_block f (authCode m),
           generateCode := on_block f (generateCode m),
           statusCode := on_block f (statusCode m)\<rparr>)"

definition animateLanguageChange :: "prism \<Rightarrow> switcher \<Rightarrow> switcher" where
  "animateLanguageChange p m = fade_in (updateCodeExamples p (fade_out m))"

text \<open>
  The listener for \<^verbatim>\<open>change\<close> on the language select, run to its end with the chosen
  value. No call in its \<^verbatim>\<open>try\<close> block can raise (the selector is reached through
  \<^verbatim>\<open>?.\<close>, and \<^verbatim>\<open>updateCodeExamples\<close> catches what it raises), so its \<^verbatim>\<open>catch\<close> clause
  is never entered; the \<^verbatim>\<open>finally\<close> clause ends the loading state. The 300 ms the fade
  waits are not part of the model.
\<close>

definition languageChanged :: "prism \<Rightarrow> string \<Rightarrow> switcher \<Rightarrow> switcher" where
  "languageChanged p v m =
     (let m1 = setLoading True m;
          m2 = m1\<lparr>lastLanguage := currentLanguage m1\<rparr>;
          m3 = m2\<lparr>currentLanguage := v\<rparr>;
          m4 = animateLanguageChange p m3;
          m5 = updateCodeExamples p m4;
          m6 = updateLanguageIndicator m5
      in setLoading False m6)"

text \<open>
  The text last assigned to the block of a slot, which is what a highlighter is given; and
  whether the block is plain text, without markup, under \<^verbatim>\<open>white-space: pre\<close>.
\<close>

fun panel_text :: "slot \<Rightarrow> string option" where
  "panel_text (Block b) = Some (block_text b)"
| "panel_text Notice = None"

fun plain_preformatted :: "slot \<Rightarrow> bool" where
  "plain_preformatted (Block b) = (block_markup b = None \<and> block_style b ''whiteSpace'' = Some ''pre'')"
| "plain_preformatted Notice = False"

text \<open>
  What the panel of a slot displays: the text of the block while it is a plain text node,
  and the text of the parsed markup once a highlighter has assigned markup to it. It is
  \<^verbatim>\<open>None\<close> when the notice has replaced the block or the markup is outside the part of
  HTML written out above.
\<close>

fun displayed_text :: "slot \<Rightarrow> string option" where
  "displayed_text (Block b) =
     (case block_markup b of
        None \<Rightarrow> Some (block_text b)
      | Some markup \<Rightarrow> html_text False markup)"
| "displayed_text Notice = None"

text \<open>The switcher of \<^verbatim>\<open>index.html\<close> before its constructor fills the three empty blocks.\<close>

definition empty_block :: code_block where
  "empty_block = \<lparr>block_text = [], block_markup = None, block_style = Map.empty\<rparr>"

definition loaded_switcher :: switcher where
  "loaded_switcher =
     \<lparr>currentLanguage = ''curl'', lastLanguage = ''curl'', isLoading = False,
      authCode = Block empty_block, generateCode = Block empty_block,
      statusCode = Block empty_block,
      selector_loading = False, selector_language = ''CURL''\<rparr>"

subsection \<open>Events arriving at the two controllers\<close>

text \<open>
  A handler runs up to its \<^verbatim>\<open>await\<close> when its event is dispatched and resumes when the
  request settles; in between, further events can arrive. A playground whose constructor
  has attached the listeners sees clicks on its two buttons and the settling of its oldest
  pending request. The browser does not
  dispatch a click to a button whose \<^verbatim>\<open>disabled\<close> property is set.
\<close>

datatype pg_event = RunClick | ResetClick | RunSettled fetch_outcome

record pg_world =
  pg_page :: playground
  pg_pending :: "website_request list"

definition playground_step :: "prism \<Rightarrow> pg_world \<Rightarrow> pg_event \<Rightarrow> pg_world" where
  "playground_step p w ev =
     (case ev of
        RunClick \<Rightarrow>
          (if runButton_disabled (pg_page w) then w
           else (let (s1, rq) = generateWebsite_begin (pg_page w)
                 in w\<lparr>pg_page := s1, pg_pending := pg_pending w @ [rq]\<rparr>))
      | ResetClick \<Rightarrow> w\<lparr>pg_page := snd (resetPlayground p (pg_page w))\<rparr>
      | RunSettled outcome \<Rightarrow>
          (case pg_pending w of
             [] \<Rightarrow> w
           | rq # rest \<Rightarrow>
               w\<lparr>pg_page := snd (generateWebsite_settle p outcome (pg_page w)),
                 pg_pending := rest\<rparr>))"

definition playground_run :: "prism \<Rightarrow> pg_event list \<Rightarrow> pg_world \<Rightarrow> pg_world" where
  "playground_run p evs w = foldl (playground_step p) w evs"

text \<open>
  The key-request form sees \<^verbatim>\<open>submit\<close> events, which its submit button triggers unless
  it is disabled or the form has left the document, and the settling of its oldest pending
  request.
\<close>

datatype key_event = Submit | KeySettled fetch_outcome

record key_world =
  key_modal :: keymodal
  key_pending :: "keyrequest list"

definition key_step :: "key_world \<Rightarrow> key_event \<Rightarrow> key_world" where
  "key_step w ev =
     (case ev of
        Submit \<Rightarrow>
          (if submit_disabled (form (key_modal w)) \<or> \<not> form_in_document (key_modal w) then w
           else (case handleApiKeyGeneration_begin (key_modal w) of
                   (m1, None) \<Rightarrow> w\<lparr>key_modal := m1\<rparr>
                 | (m1, Some rq) \<Rightarrow> w\<lparr>key_modal := m1, key_pending := key_pending w @ [rq]\<rparr>))
      | KeySettled outcome \<Rightarrow>
          (case key_pending w of
             [] \<Rightarrow> w
           | rq # rest \<Rightarrow>
               w\<lparr>key_modal := snd (handleApiKeyGeneration_settle outcome (key_modal w)),
                 key_pending := rest\<rparr>))"

definition key_run :: "key_event list \<Rightarrow> key_world \<Rightarrow> key_world" where
  "key_run evs w = foldl key_step w evs"

text \<open>
  At most one playground request is pending, and while one is, the run button is disabled.
\<close>

definition single_flight :: "pg_world \<Rightarrow> bool" where
  "single_flight w =
     (pg_pending w = [] \<or> (length (pg_pending w) = 1 \<and> runButton_disabled (pg_page w)))"


section \<open>Properties\<close>

subsection \<open>The pages array\<close>

lemma push_selected_append:
  "push_selected pages cs = pages @ push_selected [] cs"
proof (induction cs arbitrary: pages)
  case Nil
  show ?case by simp
next
  case (Cons c cs)
  have more: "push_selected (pages @ [cb_value c]) cs = (pages @ [cb_value c]) @ push_selected [] cs"
    by (rule Cons.IH)
  have one: "push_selected [cb_value c] cs = [cb_value c] @ push_selected [] cs"
    by (rule Cons.IH)
  have same: "push_selected pages cs = pages @ push_selected [] cs"
    by (rule Cons.IH)
  show ?case using more one same by simp
qed

lemma push_selected_no_home:
  "''home'' \<notin> set (push_selected [] cs)"
proof (induction cs)
  case Nil
  show ?case by simp
next
  case (Cons c cs)
  have "push_selected [cb_value c] cs = [cb_value c] @ push_selected [] cs"
    by (rule push_selected_append)
  with Cons show ?case by simp
qed

lemma getSelectedPages_shape:
  "getSelectedPages cbs = ''home'' # push_selected [] cbs"
  unfolding getSelectedPages_def using push_selected_append [of "[''home'']" cbs] by simp

lemma begin_pages:
  "cfg_pages (wr_body (snd (generateWebsite_begin s))) = getSelectedPages (boxes s)"
  by (simp add: generateWebsite_begin_def setPreviewLoading_def Let_def)


text \<open>
  Claim C3. Whatever the state of the page check cbs (any of them checked, or none), the
  pages array built for a playground submission, and so the one in the body of the request
  it issues, contains the string "home".
\<close>

theorem getSelectedPages_contains_home:
  "''home'' \<in> set (getSelectedPages cbs) \<and>
   ''home'' \<in> set (cfg_pages (wr_body (snd (generateWebsite_begin s))))"
  by (simp add: getSelectedPages_shape begin_pages)

text \<open>
  Claim C9. Whatever the state of the check cbs, the pages array has "home" as its first
  element and holds "home" exactly once: a checked box whose value is "home" adds nothing.
\<close>

theorem getSelectedPages_home_first_once:
  "hd (getSelectedPages cbs) = ''home'' \<and>
   count_list (getSelectedPages cbs) ''home'' = 1 \<and>
   getSelectedPages (\<lparr>cb_value = ''home'', cb_checked = True\<rparr> # cbs) = getSelectedPages cbs"
proof -
  have "count_list (push_selected [] cbs) ''home'' = 0"
    using push_selected_no_home [of cbs] by (simp add: count_list_0_iff)
  then show ?thesis
    by (simp add: getSelectedPages_shape)
qed


subsection \<open>The email expression\<close>

lemma regex_plus:
  "regex_test ((a, OneOrMore) # r) s \<longleftrightarrow>
     (\<exists>u v. s = u @ v \<and> u \<noteq> [] \<and> list_all (atom_matches a) u \<and> regex_test r v)"
proof (induction s)
  case Nil
  show ?case by simp
next
  case (Cons c cs)
  show ?case (is "?L = ?R")
  proof
    assume l: ?L
    then have c: "atom_matches a c" by simp
    from l consider "regex_test ((a, OneOrMore) # r) cs" | "regex_test r cs" by auto
    then show ?R
    proof cases
      case 1
      with Cons.IH obtain u v where "cs = u @ v" "u \<noteq> []" "list_all (atom_matches a) u" "regex_test r v"
        by blast
      with c have "c # cs = (c # u) @ v \<and> c # u \<noteq> [] \<and> list_all (atom_matches a) (c # u) \<and> regex_test r v"
        by simp
      then show ?thesis by blast
    next
      case 2
      with c have "c # cs = [c] @ cs \<and> [c] \<noteq> [] \<and> list_all (atom_matches a) [c] \<and> regex_test r cs"
        by simp
      then show ?thesis by blast
    qed
  next
    assume ?R
    then obtain u v where uv: "c # cs = u @ v" "u \<noteq> []" "list_all (atom_matches a) u" "regex_test r v"
      by blast
    then obtain u' where u: "u = c # u'" by (cases u) auto
    with uv have cs: "cs = u' @ v" and c: "atom_matches a c" and u': "list_all (atom_matches a) u'"
      by auto
    show ?L
    proof (cases "u' = []")
      case True
      with cs uv c show ?thesis by simp
    next
      case False
      with cs u' uv Cons.IH have "regex_test ((a, OneOrMore) # r) cs" by blast
      with c show ?thesis by simp
    qed
  qed
qed

lemma regex_once:
  "regex_test ((a, Once) # r) s \<longleftrightarrow> (\<exists>c v. s = c # v \<and> atom_matches a c \<and> regex_test r v)"
  by (cases s) auto

lemma atom_class: "list_all (atom_matches NotSpaceNorAt) p = list_all (\<lambda>c. \<not> js_space c \<and> c \<noteq> 0x0040) p"
  by (induction p) auto


lemma isValidEmail_unfold:
  "isValidEmail e \<longleftrightarrow>
     (\<exists>l v1. e = l @ v1 \<and> l \<noteq> [] \<and> list_all (atom_matches NotSpaceNorAt) l \<and>
       (\<exists>c1 v2. v1 = c1 # v2 \<and> c1 = 0x0040 \<and>
         (\<exists>d v3. v2 = d @ v3 \<and> d \<noteq> [] \<and> list_all (atom_matches NotSpaceNorAt) d \<and>
           (\<exists>c2 v4. v3 = c2 # v4 \<and> c2 = 0x002E \<and>
             (\<exists>t v5. v4 = t @ v5 \<and> t \<noteq> [] \<and> list_all (atom_matches NotSpaceNorAt) t \<and> v5 = [])))))"
  unfolding isValidEmail_def email_regex_def
  by (simp only: regex_plus regex_once regex_test.simps(1) atom_matches.simps)

lemma isValidEmail_language: "isValidEmail e \<longleftrightarrow> matches_email_expression e"
proof
  assume "isValidEmail e"
  then have "\<exists>l v1. e = l @ v1 \<and> l \<noteq> [] \<and> list_all (atom_matches NotSpaceNorAt) l \<and>
       (\<exists>c1 v2. v1 = c1 # v2 \<and> c1 = 0x0040 \<and>
         (\<exists>d v3. v2 = d @ v3 \<and> d \<noteq> [] \<and> list_all (atom_matches NotSpaceNorAt) d \<and>
           (\<exists>c2 v4. v3 = c2 # v4 \<and> c2 = 0x002E \<and>
             (\<exists>t v5. v4 = t @ v5 \<and> t \<noteq> [] \<and> list_all (atom_matches NotSpaceNorAt) t \<and> v5 = []))))"
    by (simp only: isValidEmail_unfold)
  then obtain l d t where e: "e = l @ (0x0040 # d @ (0x002E # t @ []))"
    and q: "l \<noteq> []" "list_all (atom_matches NotSpaceNorAt) l"
    "d \<noteq> []" "list_all (atom_matches NotSpaceNorAt) d"
    "t \<noteq> []" "list_all (atom_matches NotSpaceNorAt) t"
    by (elim exE conjE) simp
  from e q have "e = l @ [0x0040] @ d @ [0x002E] @ t \<and> email_part l \<and> email_part d \<and> email_part t"
    by (simp add: email_part_def atom_class)
  then show "matches_email_expression e"
    unfolding matches_email_expression_def by (intro exI)
next
  assume "matches_email_expression e"
  then obtain l d t where e: "e = l @ [0x0040] @ d @ [0x002E] @ t"
    and p: "email_part l" "email_part d" "email_part t"
    unfolding matches_email_expression_def by (elim exE conjE)
  from p have q: "l \<noteq> []" "list_all (atom_matches NotSpaceNorAt) l"
    "d \<noteq> []" "list_all (atom_matches NotSpaceNorAt) d"
    "t \<noteq> []" "list_all (atom_matches NotSpaceNorAt) t"
    by (simp_all add: email_part_def atom_class)
  have e': "e = l @ (0x0040 # d @ (0x002E # t @ []))" using e by simp
  show "isValidEmail e"
    unfolding isValidEmail_unfold
    apply (rule exI [of _ l], rule exI [of _ "0x0040 # d @ (0x002E # t @ [])"])
    apply (intro conjI e' q)
    apply (rule exI [of _ "0x0040"], rule exI [of _ "d @ (0x002E # t @ [])"])
    apply (intro conjI refl q)
    apply (rule exI [of _ d], rule exI [of _ "0x002E # t @ []"])
    apply (intro conjI refl q)
    apply (rule exI [of _ "0x002E"], rule exI [of _ "t @ []"])
    apply (intro conjI refl q)
    apply (rule exI [of _ t], rule exI [of _ "[]"])
    apply (intro conjI refl q)
    done
qed

subsection \<open>Local validation of the key request\<close>

lemma validateForm_flag:
  "fst (validateForm f) \<longleftrightarrow> isValidEmail (email_value f) \<and> 2 \<le> length (company_value f)"
  by (cases f) (auto simp add: validateForm_def Let_def)

text \<open>
  Claim C8. The local validation of the key-request form accepts a pair of inputs exactly
  when the email matches the expression (a non-empty local part, an at sign, a non-empty
  domain, a dot and a non-empty suffix, none of them with white space or a further at
  sign) and the company name has at least two code units. The matcher run by the code and
  that description of the expression agree on every string. In particular a company name
  of length two is accepted and one of length one is rejected.
\<close>

theorem validateForm_accepts_iff:
  "(fst (validateForm f) \<longleftrightarrow>
      matches_email_expression (email_value f) \<and> 2 \<le> length (company_value f)) \<and>
   (matches_email_expression e \<longleftrightarrow> regex_test email_regex e) \<and>
   (isValidEmail (email_value f) \<and> length (company_value f) = 2 \<longrightarrow> fst (validateForm f)) \<and>
   (length (company_value f) = 1 \<longrightarrow> \<not> fst (validateForm f))"
proof -
  have a: "fst (validateForm f) \<longleftrightarrow>
      matches_email_expression (email_value f) \<and> 2 \<le> length (company_value f)"
    by (simp only: validateForm_flag isValidEmail_language)
  have b: "matches_email_expression e \<longleftrightarrow> regex_test email_regex e"
    using isValidEmail_language [of e] by (simp only: isValidEmail_def)
  have c: "isValidEmail (email_value f) \<and> length (company_value f) = 2 \<longrightarrow> fst (validateForm f)"
    by (simp add: validateForm_flag)
  have d: "length (company_value f) = 1 \<longrightarrow> \<not> fst (validateForm f)"
    by (simp add: validateForm_flag)
  from a b c d show ?thesis by (intro conjI)
qed

lemma email_example: "isValidEmail (utf16 ''a@b.co'')"
  by (simp add: isValidEmail_def email_regex_def utf16_def js_space_def)

theorem validateForm_accepts_iff_witness:
  "fst (validateForm (injected_form (utf16 ''a@b.co'') (utf16 ''AB''))) \<and>
   matches_email_expression (utf16 ''a@b.co'') \<and>
   length (utf16 ''AB'') = 2 \<and>
   length (utf16 ''A'') = 1 \<and>
   \<not> fst (validateForm (injected_form (utf16 ''a@b.co'') (utf16 ''A'')))"
proof -
  let ?ok = "injected_form (utf16 ''a@b.co'') (utf16 ''AB'')"
  let ?short = "injected_form (utf16 ''a@b.co'') (utf16 ''A'')"
  note claim = validateForm_accepts_iff
  have e: "isValidEmail (email_value ?ok)"
    using email_example by (simp add: injected_form_def)
  have l2: "length (utf16 ''AB'') = 2" by (simp add: utf16_def)
  have l1: "length (utf16 ''A'') = 1" by (simp add: utf16_def)
  have c2: "length (company_value ?ok) = 2" using l2 by (simp add: injected_form_def)
  have c1: "length (company_value ?short) = 1" using l1 by (simp add: injected_form_def)
  have ok: "fst (validateForm ?ok)"
    by (rule mp [OF claim [of ?ok "[]", THEN conjunct2, THEN conjunct2, THEN conjunct1]])
      (intro conjI e c2)
  have m: "matches_email_expression (utf16 ''a@b.co'')"
    using claim [of ?ok "utf16 ''a@b.co''", THEN conjunct2, THEN conjunct1] email_example
    by (simp only: isValidEmail_def)
  have no: "\<not> fst (validateForm ?short)"
    by (rule mp [OF claim [of ?short "[]", THEN conjunct2, THEN conjunct2, THEN conjunct2]])
      (rule c1)
  from ok m l2 l1 no show ?thesis by (intro conjI)
qed

lemma validateForm_values:
  "email_value (snd (validateForm f)) = email_value f \<and>
   company_value (snd (validateForm f)) = company_value f \<and>
   submit_loading (snd (validateForm f)) = submit_loading f \<and>
   submit_disabled (snd (validateForm f)) = submit_disabled f"
  by (cases f) (auto simp add: validateForm_def Let_def)

lemma validateForm_email_group:
  "email_group (snd (validateForm f)) =
     (if isValidEmail (email_value f) then email_group f
      else annotate ''Please enter a valid business email'' (email_group f))"
  by (cases f) (auto simp add: validateForm_def Let_def)

lemma validateForm_company_group:
  "company_group (snd (validateForm f)) =
     (if 2 \<le> length (company_value f) then company_group f
      else annotate ''Company name is too short'' (company_group f))"
  by (cases f) (auto simp add: validateForm_def Let_def)

lemma begin_invalid:
  "\<not> fst (validateForm (clearErrors (form m))) \<Longrightarrow>
   handleApiKeyGeneration_begin m = (m\<lparr>form := snd (validateForm (clearErrors (form m)))\<rparr>, None)"
  by (simp add: handleApiKeyGeneration_begin_def split_beta)

lemma begin_valid:
  "fst (validateForm (clearErrors (form m))) \<Longrightarrow>
   handleApiKeyGeneration_begin m =
     (m\<lparr>form := setFormLoading True (snd (validateForm (clearErrors (form m))))\<rparr>,
      Some \<lparr>rq_url = ui_apiEndpoint @ ''/keys/generate'',
            rq_email = email_value (form m), rq_company_name = company_value (form m)\<rparr>)"
  by (simp add: handleApiKeyGeneration_begin_def split_beta validateForm_values clearErrors_def)

lemma clearErrors_values:
  "email_value (clearErrors f) = email_value f \<and> company_value (clearErrors f) = company_value f
   \<and> \<not> group_error (email_group (clearErrors f)) \<and> \<not> group_error (company_group (clearErrors f))"
  by (simp add: clearErrors_def clear_group_def)

text \<open>
  Claim C2. When the email fails the format check or the company name is shorter than two
  code units, the submission handler returns before its first \<^verbatim>\<open>await\<close>: it issues no
  request whatever the network would answer, raises nothing, never enters the loading
  state, and leaves the form with exactly the offending fields marked, each with its
  message appended last, and with the typed values untouched.
\<close>

theorem invalid_submission_issues_no_request:
  assumes bad: "\<not> isValidEmail (email_value (form m)) \<or> length (company_value (form m)) < 2"
  shows "snd (handleApiKeyGeneration_begin m) = None \<and>
     snd (snd (handleApiKeyGeneration net m)) = [] \<and>
     fst (handleApiKeyGeneration net m) = None \<and>
     (let f' = form (fst (snd (handleApiKeyGeneration net m))) in
        email_value f' = email_value (form m) \<and>
        company_value f' = company_value (form m) \<and>
        group_error (email_group f') = (\<not> isValidEmail (email_value (form m))) \<and>
        group_error (company_group f') = (length (company_value (form m)) < 2) \<and>
        (\<not> isValidEmail (email_value (form m)) \<longrightarrow>
           last (group_messages (email_group f')) = ''Please enter a valid business email'') \<and>
        (length (company_value (form m)) < 2 \<longrightarrow>
           last (group_messages (company_group f')) = ''Company name is too short'') \<and>
        submit_loading f' = submit_loading (form m))"
proof -
  let ?c = "clearErrors (form m)"
  have rej: "\<not> fst (validateForm ?c)"
    using bad by (auto simp add: validateForm_flag clearErrors_values)
  have b: "handleApiKeyGeneration_begin m = (m\<lparr>form := snd (validateForm ?c)\<rparr>, None)"
    using rej by (rule begin_invalid)
  have h: "handleApiKeyGeneration net m = (None, m\<lparr>form := snd (validateForm ?c)\<rparr>, [])"
    by (simp add: handleApiKeyGeneration_def b)
  have sl: "submit_loading ?c = submit_loading (form m)"
    by (simp add: clearErrors_def)
  show ?thesis
    unfolding h b
    by (simp add: Let_def validateForm_values validateForm_email_group validateForm_company_group
        clearErrors_values annotate_def sl not_le)
qed

theorem invalid_submission_issues_no_request_witness:
  "\<not> isValidEmail (email_value (form (opened_modal (utf16 ''a.b'') (utf16 ''Canopus'')))) \<and>
   snd (snd (handleApiKeyGeneration (\<lambda>rq. Responded True (Parsed (JObj [(''api_key'', JStr ''k'')])))
     (opened_modal (utf16 ''a.b'') (utf16 ''Canopus'')))) = [] \<and>
   group_error (email_group (form (fst (snd
     (handleApiKeyGeneration (\<lambda>rq. Responded True (Parsed (JObj [(''api_key'', JStr ''k'')])))
       (opened_modal (utf16 ''a.b'') (utf16 ''Canopus''))))))) \<and>
   \<not> group_error (company_group (form (fst (snd
     (handleApiKeyGeneration (\<lambda>rq. Responded True (Parsed (JObj [(''api_key'', JStr ''k'')])))
       (opened_modal (utf16 ''a.b'') (utf16 ''Canopus'')))))))"
proof -
  let ?net = "\<lambda>rq::keyrequest. Responded True (Parsed (JObj [(''api_key'', JStr ''k'')]))"
  have bad: "\<not> isValidEmail (email_value (form (opened_modal (utf16 ''a.b'') (utf16 ''Canopus''))))"
    by (simp add: opened_modal_def injected_form_def isValidEmail_def email_regex_def utf16_def js_space_def)
  have len: "\<not> length (company_value (form (opened_modal (utf16 ''a.b'') (utf16 ''Canopus'')))) < 2"
    by (simp add: opened_modal_def injected_form_def utf16_def)
  from bad have "\<not> isValidEmail (email_value (form (opened_modal (utf16 ''a.b'') (utf16 ''Canopus''))))
     \<or> length (company_value (form (opened_modal (utf16 ''a.b'') (utf16 ''Canopus'')))) < 2"
    by (rule disjI1)
  from invalid_submission_issues_no_request [OF this, of ?net] bad len
  show ?thesis by (simp only: Let_def simp_thms)
qed


subsection \<open>Playground: failures and reset\<close>

lemma updatePreviewCode_data:
  "previewCode_data (snd (updatePreviewCode p data s)) = data"
  by (simp add: updatePreviewCode_def Let_def split: prism.splits option.splits sum.splits)

lemma updatePreviewCode_form:
  "description (snd (updatePreviewCode p data s)) = description s \<and>
   style (snd (updatePreviewCode p data s)) = style s \<and>
   boxes (snd (updatePreviewCode p data s)) = boxes s \<and>
   runButton_disabled (snd (updatePreviewCode p data s)) = runButton_disabled s"
  by (simp add: updatePreviewCode_def Let_def split: prism.splits option.splits sum.splits)

lemma updatePreviewCode_ok:
  "highlightElement api = Some h \<Longrightarrow> h data = Inr markup \<Longrightarrow>
   updatePreviewCode (PrismObject api) data s =
     (None, s\<lparr>previewCode_data := data, previewCode_markup := Some markup\<rparr>)"
  by (simp add: updatePreviewCode_def Let_def)

lemma failed_raises:
  "failed outcome \<Longrightarrow> \<exists>e. playground_response p outcome s = (Some e, s)"
  by (cases outcome) (auto simp add: playground_response_def split: body.splits)

text \<open>
  Where \<^verbatim>\<open>highlightElement\<close> is there and returns on the error object, a failed request
  is caught: nothing leaves the handler, and the error object is the value last handed to
  the pane (what the pane shows after that is up to the highlighter).
\<close>

lemma settle_failed:
  assumes hl: "highlightElement api = Some h"
    and ok: "\<And>msg. \<exists>markup. h (JObj [(''error'', JBool True), (''message'', JStr msg)]) = Inr markup"
    and bad: "failed outcome"
  shows "\<exists>msg. fst (generateWebsite_settle (PrismObject api) outcome s) = None \<and>
           previewCode_data (snd (generateWebsite_settle (PrismObject api) outcome s)) =
             JObj [(''error'', JBool True), (''message'', JStr msg)] \<and>
           \<not> runButton_disabled (snd (generateWebsite_settle (PrismObject api) outcome s))"
proof -
  from bad obtain e where r: "playground_response (PrismObject api) outcome s = (Some e, s)"
    using failed_raises by blast
  from ok obtain markup where m: "h (JObj [(''error'', JBool True), (''message'', JStr (message e))]) = Inr markup"
    by blast
  have se: "showError (PrismObject api) (message e) s =
      (None, s\<lparr>previewCode_data := JObj [(''error'', JBool True), (''message'', JStr (message e))],
                previewCode_markup := Some markup\<rparr>)"
    unfolding showError_def using hl m by (rule updatePreviewCode_ok)
  have "fst (generateWebsite_settle (PrismObject api) outcome s) = None \<and>
           previewCode_data (snd (generateWebsite_settle (PrismObject api) outcome s)) =
             JObj [(''error'', JBool True), (''message'', JStr (message e))] \<and>
           \<not> runButton_disabled (snd (generateWebsite_settle (PrismObject api) outcome s))"
    by (simp add: generateWebsite_settle_def r se setPreviewLoading_def)
  then show ?thesis by (rule exI)
qed



lemma throw_detail_string:
  "map_of ps ''detail'' = Some (JStr d) \<Longrightarrow> d \<noteq> [] \<Longrightarrow>
   throw_detail fallback (JObj ps) = Error d"
  by (simp add: throw_detail_def)

lemma throw_detail_absent:
  "map_of ps ''detail'' = None \<Longrightarrow> throw_detail fallback (JObj ps) = Error fallback"
  by (simp add: throw_detail_def)

lemma showError_data:
  "previewCode_data (snd (showError p msg s)) = JObj [(''error'', JBool True), (''message'', JStr msg)]"
  by (simp add: showError_def updatePreviewCode_data)

lemma settle_not_ok_data:
  "previewCode_data (snd (generateWebsite_settle p (Responded False (Parsed data)) s)) =
     JObj [(''error'', JBool True), (''message'', JStr (message (throw_detail ''Generation failed'' data)))]"
  by (simp add: generateWebsite_settle_def playground_response_def split_beta setPreviewLoading_def
      showError_data)

lemma key_settle_not_ok:
  "form_in_document m \<Longrightarrow>
   banners (snd (handleApiKeyGeneration_settle (Responded False (Parsed data)) m)) =
     message (throw_detail ''Failed to generate API key'' data) # banners m"
  by (simp add: handleApiKeyGeneration_settle_def key_response_def showErrorMessage_def)

text \<open>
  Claim C5. Both controllers build their error text from the property \<^verbatim>\<open>detail\<close> of the
  response body. Given the error body the API reference documents, whose text is under
  \<^verbatim>\<open>message\<close>, with a response that is not ok, the playground renders the fixed text
  "Generation failed" and the key-request form the fixed text "Failed to generate API key";
  the message of the body is not shown.
\<close>

theorem documented_error_message_not_surfaced:
  "previewCode_data (snd (generateWebsite_settle p (Responded False (Parsed documented_error_body)) s)) =
     JObj [(''error'', JBool True), (''message'', JStr ''Generation failed'')] \<and>
   banners (snd (handleApiKeyGeneration_settle (Responded False (Parsed documented_error_body))
                   (opened_modal email company))) = [''Failed to generate API key''] \<and>
   get_prop documented_error_body ''message'' = Inr (Some (JStr ''Invalid request parameters''))"
proof -
  have t: "\<And>fallback. throw_detail fallback documented_error_body = Error fallback"
    unfolding documented_error_body_def by (rule throw_detail_absent) simp
  have a: "previewCode_data (snd (generateWebsite_settle p (Responded False (Parsed documented_error_body)) s)) =
     JObj [(''error'', JBool True), (''message'', JStr ''Generation failed'')]"
    by (simp add: settle_not_ok_data t)
  have b: "banners (snd (handleApiKeyGeneration_settle (Responded False (Parsed documented_error_body))
                   (opened_modal email company))) = [''Failed to generate API key'']"
    by (simp add: key_settle_not_ok t opened_modal_def)
  have c: "get_prop documented_error_body ''message'' = Inr (Some (JStr ''Invalid request parameters''))"
    by (simp add: documented_error_body_def)
  from a b c show ?thesis by (intro conjI)
qed

text \<open>What is surfaced verbatim is a non-empty string under \<^verbatim>\<open>detail\<close>.\<close>

lemma detail_surfaced:
  assumes "map_of ps ''detail'' = Some (JStr d)" and "d \<noteq> []"
  shows "previewCode_data (snd (generateWebsite_settle p (Responded False (Parsed (JObj ps))) s)) =
           JObj [(''error'', JBool True), (''message'', JStr d)]"
    and "form_in_document m \<Longrightarrow>
         banners (snd (handleApiKeyGeneration_settle (Responded False (Parsed (JObj ps))) m)) =
           d # banners m"
  using assms by (simp_all add: settle_not_ok_data key_settle_not_ok throw_detail_string)

text \<open>
  Claim C10. After \<^verbatim>\<open>resetPlayground\<close>, whether or not the highlighter call at its end
  raised, the description is the default text "A modern business website with a clean
  design" and not the empty string, the style is "modern", and a check box is checked
  exactly when its value is "home"; the values of the boxes are unchanged.
\<close>

theorem reset_restores_defaults:
  "description (snd (resetPlayground p s)) = ''A modern business website with a clean design'' \<and>
   description (snd (resetPlayground p s)) \<noteq> [] \<and>
   style (snd (resetPlayground p s)) = ''modern'' \<and>
   (\<forall>c \<in> set (boxes (snd (resetPlayground p s))). cb_checked c \<longleftrightarrow> cb_value c = ''home'') \<and>
   map cb_value (boxes (snd (resetPlayground p s))) = map cb_value (boxes s)"
  by (simp add: resetPlayground_def setInitialState_def updatePreviewCode_form
      set_select_value_def websiteStyle_options_def comp_def)

theorem reset_restores_defaults_witness:
  "map cb_checked (boxes (snd (resetPlayground PrismUndefined
      (loaded_playground\<lparr>description := ''shop'', style := ''creative'',
         boxes := [\<lparr>cb_value = ''home'', cb_checked = False\<rparr>,
                   \<lparr>cb_value = ''about'', cb_checked = True\<rparr>]\<rparr>)))) = [True, False] \<and>
   style (snd (resetPlayground PrismUndefined
      (loaded_playground\<lparr>description := ''shop'', style := ''creative'',
         boxes := [\<lparr>cb_value = ''home'', cb_checked = False\<rparr>,
                   \<lparr>cb_value = ''about'', cb_checked = True\<rparr>]\<rparr>))) = ''modern''"
proof -
  let ?s = "loaded_playground\<lparr>description := ''shop'', style := ''creative'',
         boxes := [\<lparr>cb_value = ''home'', cb_checked = False\<rparr>,
                   \<lparr>cb_value = ''about'', cb_checked = True\<rparr>]\<rparr>"
  note claim = reset_restores_defaults [of PrismUndefined ?s]
  have v: "map cb_value (boxes (snd (resetPlayground PrismUndefined ?s))) = [''home'', ''about'']"
    using claim by simp
  have c: "\<forall>c \<in> set (boxes (snd (resetPlayground PrismUndefined ?s))). cb_checked c \<longleftrightarrow> cb_value c = ''home''"
    using claim by (elim conjE)
  then have "map cb_checked (boxes (snd (resetPlayground PrismUndefined ?s))) =
       map (\<lambda>v. v = ''home'') (map cb_value (boxes (snd (resetPlayground PrismUndefined ?s))))"
    by (simp add: comp_def)
  with v have "map cb_checked (boxes (snd (resetPlayground PrismUndefined ?s))) = [True, False]"
    by simp
  moreover have "style (snd (resetPlayground PrismUndefined ?s)) = ''modern''"
    using claim by (elim conjE)
  ultimately show ?thesis by (intro conjI)
qed



subsection \<open>The code-example switcher\<close>

lemma store_lookup:
  "v \<in> set languageSelect_options \<Longrightarrow> \<exists>ex. map_of codeExamples v = Some ex"
  by (auto simp add: languageSelect_options_def codeExamples_def)

lemma fixtures_nonempty:
  "curl_authentication \<noteq> []"
  "curl_websiteGeneration \<noteq> []"
  "curl_projectStatus \<noteq> []"
  "python_authentication \<noteq> []"
  "python_websiteGeneration \<noteq> []"
  "python_projectStatus \<noteq> []"
  "javascript_authentication \<noteq> []"
  "javascript_websiteGeneration \<noteq> []"
  "javascript_projectStatus \<noteq> []"
  "php_authentication \<noteq> []"
  "php_websiteGeneration \<noteq> []"
  "php_projectStatus \<noteq> []"
  "go_authentication \<noteq> []"
  "go_websiteGeneration \<noteq> []"
  "go_projectStatus \<noteq> []"
  by (simp_all add: curl_authentication_def curl_websiteGeneration_def curl_projectStatus_def python_authentication_def python_websiteGeneration_def python_projectStatus_def javascript_authentication_def javascript_websiteGeneration_def javascript_projectStatus_def php_authentication_def php_websiteGeneration_def php_projectStatus_def go_authentication_def go_websiteGeneration_def go_projectStatus_def)

lemma store_nonempty:
  assumes "map_of codeExamples v = Some ex"
  shows "authentication ex \<noteq> [] \<and> websiteGeneration ex \<noteq> [] \<and> projectStatus ex \<noteq> []"
proof -
  from assms have "(v, ex) \<in> set codeExamples" by (rule map_of_SomeD)
  then show ?thesis
    unfolding codeExamples_def by (auto simp add: fixtures_nonempty)
qed

lemma present_Block: "present sl \<Longrightarrow> \<exists>b. sl = Block b"
  by (cases sl) simp_all

lemma on_block_shown:
  "(\<And>b. block_text (f b) = block_text b) \<Longrightarrow> panel_text (on_block f sl) = panel_text sl"
  by (cases sl) simp_all

lemma on_block_present: "present (on_block f sl) = present sl"
  by (cases sl) simp_all

lemma fade_out_keeps:
  "present (authCode (fade_out m)) = present (authCode m) \<and>
   present (generateCode (fade_out m)) = present (generateCode m) \<and>
   present (statusCode (fade_out m)) = present (statusCode m) \<and>
   currentLanguage (fade_out m) = currentLanguage m"
  by (simp add: fade_out_def Let_def on_block_present)

lemma fade_in_keeps:
  "present (authCode (fade_in m)) = present (authCode m) \<and>
   present (generateCode (fade_in m)) = present (generateCode m) \<and>
   present (statusCode (fade_in m)) = present (statusCode m) \<and>
   panel_text (authCode (fade_in m)) = panel_text (authCode m) \<and>
   panel_text (generateCode (fade_in m)) = panel_text (generateCode m) \<and>
   panel_text (statusCode (fade_in m)) = panel_text (statusCode m) \<and>
   currentLanguage (fade_in m) = currentLanguage m"
  by (simp add: fade_in_def Let_def on_block_present on_block_shown)

lemma update_try_fallback:
  assumes "available_highlightAll p = None"
    and "authCode m = Block a" "generateCode m = Block g" "statusCode m = Block st"
  shows "update_try p ex m =
         (None,
          m\<lparr>authCode := Block (basic_formatting (a\<lparr>block_text := authentication ex, block_markup := None\<rparr>)),
            generateCode := Block (basic_formatting (g\<lparr>block_text := websiteGeneration ex, block_markup := None\<rparr>)),
            statusCode := Block (basic_formatting (st\<lparr>block_text := projectStatus ex, block_markup := None\<rparr>))\<rparr>)"
  using assms by (simp add: update_try_def applyBasicFormatting_def)

lemma update_try_highlighted:
  assumes "available_highlightAll p = Some h"
    and "h (authentication ex) = Inr ma"
    and "h (websiteGeneration ex) = Inr mg"
    and "h (projectStatus ex) = Inr ms"
    and "authCode m = Block a" "generateCode m = Block g" "statusCode m = Block st"
  shows "update_try p ex m =
         (None,
          m\<lparr>authCode := Block (a\<lparr>block_text := authentication ex, block_markup := Some ma\<rparr>),
            generateCode := Block (g\<lparr>block_text := websiteGeneration ex, block_markup := Some mg\<rparr>),
            statusCode := Block (st\<lparr>block_text := projectStatus ex, block_markup := Some ms\<rparr>)\<rparr>)"
  using assms by (simp add: update_try_def run_highlightAll_def)

lemma update_with_shows:
  assumes here: "present (authCode m)" "present (generateCode m)" "present (statusCode m)"
    and quiet: "\<forall>h t. available_highlightAll p = Some h \<longrightarrow> (\<exists>markup. h t = Inr markup)"
  shows "panel_text (authCode (update_with p ex m)) = Some (authentication ex) \<and>
         panel_text (generateCode (update_with p ex m)) = Some (websiteGeneration ex) \<and>
         panel_text (statusCode (update_with p ex m)) = Some (projectStatus ex) \<and>
         present (authCode (update_with p ex m)) \<and>
         present (generateCode (update_with p ex m)) \<and>
         present (statusCode (update_with p ex m)) \<and>
         currentLanguage (update_with p ex m) = currentLanguage m"
proof -
  from here(1) obtain a where a: "authCode m = Block a" using present_Block by blast
  from here(2) obtain g where g: "generateCode m = Block g" using present_Block by blast
  from here(3) obtain st where st: "statusCode m = Block st" using present_Block by blast
  show ?thesis
  proof (cases "available_highlightAll p")
    case None
    show ?thesis
      by (simp add: update_with_def update_try_fallback [OF None a g st] basic_formatting_def)
  next
    case (Some h)
    from quiet Some obtain ma where ma: "h (authentication ex) = Inr ma" by blast
    from quiet Some obtain mg where mg: "h (websiteGeneration ex) = Inr mg" by blast
    from quiet Some obtain ms where ms: "h (projectStatus ex) = Inr ms" by blast
    show ?thesis
      by (simp add: update_with_def update_try_highlighted [OF Some ma mg ms a g st])
  qed
qed

lemma update_found:
  "map_of codeExamples (currentLanguage m) = Some ex \<Longrightarrow>
   updateCodeExamples p m = update_with p ex m"
  by (simp add: updateCodeExamples_def)

lemma update_shows:
  assumes here: "present (authCode m)" "present (generateCode m)" "present (statusCode m)"
    and ex: "map_of codeExamples (currentLanguage m) = Some ex"
    and quiet: "\<forall>h t. available_highlightAll p = Some h \<longrightarrow> (\<exists>markup. h t = Inr markup)"
  shows "panel_text (authCode (updateCodeExamples p m)) = Some (authentication ex) \<and>
         panel_text (generateCode (updateCodeExamples p m)) = Some (websiteGeneration ex) \<and>
         panel_text (statusCode (updateCodeExamples p m)) = Some (projectStatus ex) \<and>
         present (authCode (updateCodeExamples p m)) \<and>
         present (generateCode (updateCodeExamples p m)) \<and>
         present (statusCode (updateCodeExamples p m)) \<and>
         currentLanguage (updateCodeExamples p m) = currentLanguage m"
  unfolding update_found [OF ex] using here quiet by (rule update_with_shows)

lemma languageChanged_unfold:
  "languageChanged p v m =
     setLoading False (updateLanguageIndicator (updateCodeExamples p (fade_in (updateCodeExamples p
       (fade_out ((setLoading True m)\<lparr>lastLanguage := currentLanguage m, currentLanguage := v\<rparr>))))))"
  by (simp add: languageChanged_def Let_def animateLanguageChange_def setLoading_def)

lemma tail_keeps:
  "authCode (setLoading False (updateLanguageIndicator m)) = authCode m \<and>
   generateCode (setLoading False (updateLanguageIndicator m)) = generateCode m \<and>
   statusCode (setLoading False (updateLanguageIndicator m)) = statusCode m \<and>
   currentLanguage (setLoading False (updateLanguageIndicator m)) = currentLanguage m \<and>
   \<not> isLoading (setLoading False (updateLanguageIndicator m)) \<and>
   \<not> selector_loading (setLoading False (updateLanguageIndicator m))"
  by (simp add: setLoading_def updateLanguageIndicator_def)

text \<open>
  The three code elements stay in the document through every change of language, as long
  as the highlighter does not raise: their presence is an invariant of the page.
\<close>

lemma update_keeps_blocks:
  assumes here: "present (authCode m)" "present (generateCode m)" "present (statusCode m)"
    and quiet: "\<forall>h t. available_highlightAll p = Some h \<longrightarrow> (\<exists>markup. h t = Inr markup)"
  shows "present (authCode (updateCodeExamples p m)) \<and>
         present (generateCode (updateCodeExamples p m)) \<and>
         present (statusCode (updateCodeExamples p m))"
proof (cases "map_of codeExamples (currentLanguage m)")
  case None
  show ?thesis
  proof (cases "currentLanguage m \<in> set object_prototype_keys")
    case True
    from update_with_shows [OF here quiet,
        of "\<lparr>authentication = [], websiteGeneration = [], projectStatus = []\<rparr>"]
    show ?thesis by (simp add: updateCodeExamples_def None True)
  next
    case False
    with here show ?thesis by (simp add: updateCodeExamples_def None)
  qed
next
  case (Some ex)
  from update_shows [OF here Some quiet] show ?thesis by simp
qed

lemma blocks_stay_in_the_document:
  assumes here: "present (authCode m)" "present (generateCode m)" "present (statusCode m)"
    and quiet: "\<forall>h t. available_highlightAll p = Some h \<longrightarrow> (\<exists>markup. h t = Inr markup)"
  shows "present (authCode (languageChanged p v m)) \<and>
         present (generateCode (languageChanged p v m)) \<and>
         present (statusCode (languageChanged p v m))"
proof -
  let ?m0 = "fade_out ((setLoading True m)\<lparr>lastLanguage := currentLanguage m, currentLanguage := v\<rparr>)"
  have h0: "present (authCode ?m0)" "present (generateCode ?m0)" "present (statusCode ?m0)"
    using here by (simp_all add: fade_out_keeps setLoading_def)
  note u1 = update_keeps_blocks [OF h0 quiet]
  let ?m1 = "fade_in (updateCodeExamples p ?m0)"
  have h1: "present (authCode ?m1)" "present (generateCode ?m1)" "present (statusCode ?m1)"
    using u1 by (simp_all add: fade_in_keeps)
  note u2 = update_keeps_blocks [OF h1 quiet]
  show ?thesis
    unfolding languageChanged_unfold using u2 by (simp add: tail_keeps)
qed

text \<open>
  What \<^verbatim>\<open>updateCodeExamples\<close> assigns on a change of language: the three literals of the
  chosen language become the text of the three blocks, which is what a highlighter is then
  given.
\<close>

lemma assigned_text_is_fixture:
  assumes lang: "v \<in> set languageSelect_options"
    and here: "present (authCode m)" "present (generateCode m)" "present (statusCode m)"
    and quiet: "\<And>h t. available_highlightAll p = Some h \<Longrightarrow> \<exists>markup. h t = Inr markup"
  shows "\<exists>ex. map_of codeExamples v = Some ex \<and>
     panel_text (authCode (languageChanged p v m)) = Some (authentication ex) \<and>
     panel_text (generateCode (languageChanged p v m)) = Some (websiteGeneration ex) \<and>
     panel_text (statusCode (languageChanged p v m)) = Some (projectStatus ex) \<and>
     authentication ex \<noteq> [] \<and> websiteGeneration ex \<noteq> [] \<and> projectStatus ex \<noteq> []"
proof -
  from lang obtain ex where ex: "map_of codeExamples v = Some ex"
    using store_lookup by blast
  from quiet have q: "\<forall>h t. available_highlightAll p = Some h \<longrightarrow> (\<exists>markup. h t = Inr markup)"
    by blast
  let ?m0 = "fade_out ((setLoading True m)\<lparr>lastLanguage := currentLanguage m, currentLanguage := v\<rparr>)"
  have h0: "present (authCode ?m0)" "present (generateCode ?m0)" "present (statusCode ?m0)"
    and l0: "currentLanguage ?m0 = v"
    using here by (simp_all add: fade_out_keeps setLoading_def)
  from ex l0 have e0: "map_of codeExamples (currentLanguage ?m0) = Some ex" by simp
  note u1 = update_shows [OF h0 e0 q]
  let ?m1 = "fade_in (updateCodeExamples p ?m0)"
  have h1: "present (authCode ?m1)" "present (generateCode ?m1)" "present (statusCode ?m1)"
    and l1: "currentLanguage ?m1 = v"
    using u1 l0 by (simp_all add: fade_in_keeps)
  from ex l1 have e1: "map_of codeExamples (currentLanguage ?m1) = Some ex" by simp
  note u2 = update_shows [OF h1 e1 q]
  have "panel_text (authCode (languageChanged p v m)) = Some (authentication ex) \<and>
     panel_text (generateCode (languageChanged p v m)) = Some (websiteGeneration ex) \<and>
     panel_text (statusCode (languageChanged p v m)) = Some (projectStatus ex)"
    unfolding languageChanged_unfold using u2 by (simp add: tail_keeps)
  with ex store_nonempty [OF ex] show ?thesis by blast
qed

lemma update_falls_back:
  assumes here: "present (authCode m)" "present (generateCode m)" "present (statusCode m)"
    and ex: "map_of codeExamples (currentLanguage m) = Some ex"
    and off: "available_highlightAll p = None"
  shows "fst (update_try p ex m) = None \<and>
         plain_preformatted (authCode (updateCodeExamples p m)) \<and>
         plain_preformatted (generateCode (updateCodeExamples p m)) \<and>
         plain_preformatted (statusCode (updateCodeExamples p m))"
proof -
  from here(1) obtain a where a: "authCode m = Block a" using present_Block by blast
  from here(2) obtain g where g: "generateCode m = Block g" using present_Block by blast
  from here(3) obtain st where st: "statusCode m = Block st" using present_Block by blast
  show ?thesis
    by (simp add: updateCodeExamples_def update_with_def ex update_try_fallback [OF off a g st]
        basic_formatting_def)
qed

lemma unavailable_iff:
  "(p = PrismUndefined \<or> (\<exists>api. p = PrismObject api \<and> highlightAll api = None)) \<longleftrightarrow>
   available_highlightAll p = None"
  by (cases p) simp_all

text \<open>
  Claim C7. When the highlighter is unavailable (\<^verbatim>\<open>Prism\<close> is undefined, or is an object
  without \<^verbatim>\<open>highlightAll\<close>), a change of language to one of the offered keys, on a page
  whose three code elements are in the document, raises nothing inside
  \<^verbatim>\<open>updateCodeExamples\<close>, so that its error notice is not shown; each panel ends as plain
  text without markup, with the style \<^verbatim>\<open>white-space: pre\<close>, holding the literal of the
  chosen language; and the listener ends with the loading state cleared, so the select can
  be used again.
\<close>

theorem unavailable_highlighter_falls_back:
  assumes off: "p = PrismUndefined \<or> (\<exists>api. p = PrismObject api \<and> highlightAll api = None)"
    and lang: "v \<in> set languageSelect_options"
    and here: "present (authCode m)" "present (generateCode m)" "present (statusCode m)"
  shows "\<exists>ex. map_of codeExamples v = Some ex \<and>
     fst (update_try p ex m) = None \<and>
     panel_text (authCode (languageChanged p v m)) = Some (authentication ex) \<and>
     panel_text (generateCode (languageChanged p v m)) = Some (websiteGeneration ex) \<and>
     panel_text (statusCode (languageChanged p v m)) = Some (projectStatus ex) \<and>
     plain_preformatted (authCode (languageChanged p v m)) \<and>
     plain_preformatted (generateCode (languageChanged p v m)) \<and>
     plain_preformatted (statusCode (languageChanged p v m)) \<and>
     \<not> isLoading (languageChanged p v m) \<and>
     \<not> selector_loading (languageChanged p v m) \<and>
     currentLanguage (languageChanged p v m) = v"
proof -
  from off have none: "available_highlightAll p = None" by (simp only: unavailable_iff)
  then have q: "\<forall>h t. available_highlightAll p = Some h \<longrightarrow> (\<exists>markup. h t = Inr markup)"
    by simp
  from lang obtain ex where ex: "map_of codeExamples v = Some ex"
    using store_lookup by blast
  from here(1) obtain a where a: "authCode m = Block a" using present_Block by blast
  from here(2) obtain g where g: "generateCode m = Block g" using present_Block by blast
  from here(3) obtain st where st: "statusCode m = Block st" using present_Block by blast
  have t: "fst (update_try p ex m) = None"
    by (simp add: update_try_fallback [OF none a g st])
  let ?m0 = "fade_out ((setLoading True m)\<lparr>lastLanguage := currentLanguage m, currentLanguage := v\<rparr>)"
  have h0: "present (authCode ?m0)" "present (generateCode ?m0)" "present (statusCode ?m0)"
    and l0: "currentLanguage ?m0 = v"
    using here by (simp_all add: fade_out_keeps setLoading_def)
  from ex l0 have e0: "map_of codeExamples (currentLanguage ?m0) = Some ex" by simp
  note u1 = update_shows [OF h0 e0 q]
  let ?m1 = "fade_in (updateCodeExamples p ?m0)"
  have h1: "present (authCode ?m1)" "present (generateCode ?m1)" "present (statusCode ?m1)"
    and l1: "currentLanguage ?m1 = v"
    using u1 l0 by (simp_all add: fade_in_keeps)
  from ex l1 have e1: "map_of codeExamples (currentLanguage ?m1) = Some ex" by simp
  note u2 = update_shows [OF h1 e1 q]
  note f2 = update_falls_back [OF h1 e1 none]
  have r: "panel_text (authCode (languageChanged p v m)) = Some (authentication ex) \<and>
     panel_text (generateCode (languageChanged p v m)) = Some (websiteGeneration ex) \<and>
     panel_text (statusCode (languageChanged p v m)) = Some (projectStatus ex) \<and>
     plain_preformatted (authCode (languageChanged p v m)) \<and>
     plain_preformatted (generateCode (languageChanged p v m)) \<and>
     plain_preformatted (statusCode (languageChanged p v m)) \<and>
     \<not> isLoading (languageChanged p v m) \<and>
     \<not> selector_loading (languageChanged p v m) \<and>
     currentLanguage (languageChanged p v m) = v"
    unfolding languageChanged_unfold using u2 f2 l1 by (simp add: tail_keeps)
  from ex t r show ?thesis by (intro exI [of _ ex]) (simp only: simp_thms)
qed

lemma python_entry:
  "map_of codeExamples ''python'' =
     Some \<lparr>authentication = python_authentication,
            websiteGeneration = python_websiteGeneration,
            projectStatus = python_projectStatus\<rparr>"
  by (simp add: codeExamples_def)

lemma go_entry:
  "map_of codeExamples ''go'' =
     Some \<lparr>authentication = go_authentication,
            websiteGeneration = go_websiteGeneration,
            projectStatus = go_projectStatus\<rparr>"
  by (simp add: codeExamples_def)

lemma loaded_switcher_present:
  "present (authCode loaded_switcher)" "present (generateCode loaded_switcher)"
  "present (statusCode loaded_switcher)"
  by (simp_all add: loaded_switcher_def)


theorem unavailable_highlighter_falls_back_witness:
  "''go'' \<in> set languageSelect_options \<and>
   panel_text (authCode (languageChanged PrismUndefined ''go'' loaded_switcher)) = Some go_authentication \<and>
   plain_preformatted (authCode (languageChanged PrismUndefined ''go'' loaded_switcher)) \<and>
   plain_preformatted (generateCode (languageChanged PrismUndefined ''go'' loaded_switcher)) \<and>
   plain_preformatted (statusCode (languageChanged PrismUndefined ''go'' loaded_switcher)) \<and>
   \<not> isLoading (languageChanged PrismUndefined ''go'' loaded_switcher)"
proof -
  let ?m = "languageChanged PrismUndefined ''go'' loaded_switcher"
  have lang: "''go'' \<in> set languageSelect_options"
    by (simp add: languageSelect_options_def)
  have off: "PrismUndefined = PrismUndefined \<or>
      (\<exists>api. PrismUndefined = PrismObject api \<and> highlightAll api = None)"
    by simp
  from unavailable_highlighter_falls_back [OF off lang loaded_switcher_present]
  obtain ex where all: "map_of codeExamples ''go'' = Some ex \<and>
     fst (update_try PrismUndefined ex loaded_switcher) = None \<and>
     panel_text (authCode ?m) = Some (authentication ex) \<and>
     panel_text (generateCode ?m) = Some (websiteGeneration ex) \<and>
     panel_text (statusCode ?m) = Some (projectStatus ex) \<and>
     plain_preformatted (authCode ?m) \<and>
     plain_preformatted (generateCode ?m) \<and>
     plain_preformatted (statusCode ?m) \<and>
     \<not> isLoading ?m \<and>
     \<not> selector_loading ?m \<and>
     currentLanguage ?m = ''go''" ..
  from all have "map_of codeExamples ''go'' = Some ex" by (rule conjunct1)
  with go_entry have ex: "ex = \<lparr>authentication = go_authentication,
            websiteGeneration = go_websiteGeneration,
            projectStatus = go_projectStatus\<rparr>" by simp
  from all have a: "panel_text (authCode ?m) = Some (authentication ex)"
    and p1: "plain_preformatted (authCode ?m)"
    and p2: "plain_preformatted (generateCode ?m)"
    and p3: "plain_preformatted (statusCode ?m)"
    and l: "\<not> isLoading ?m"
    by simp_all
  from a ex have a': "panel_text (authCode ?m) = Some go_authentication" by simp
  from lang a' p1 p2 p3 l show ?thesis by (intro conjI)
qed


subsection \<open>What the panels display\<close>

text \<open>
  Under the highlighter of the page the markup of a block is its text, and the panel
  displays what the parser makes of it.
\<close>

lemma update_with_raw_markup:
  assumes here: "present (authCode m)" "present (generateCode m)" "present (statusCode m)"
    and raw: "available_highlightAll p = Some (\<lambda>t. Inr t)"
  shows "displayed_text (authCode (update_with p ex m)) = html_text False (authentication ex) \<and>
         displayed_text (generateCode (update_with p ex m)) = html_text False (websiteGeneration ex) \<and>
         displayed_text (statusCode (update_with p ex m)) = html_text False (projectStatus ex)"
proof -
  from here(1) obtain a where a: "authCode m = Block a" using present_Block by blast
  from here(2) obtain g where g: "generateCode m = Block g" using present_Block by blast
  from here(3) obtain st where st: "statusCode m = Block st" using present_Block by blast
  have r: "(\<lambda>t. Inr t :: exn + string) x = Inr x" for x by simp
  show ?thesis
    by (simp add: update_with_def update_try_highlighted [OF raw r r r a g st])
qed

lemma page_prism_highlightAll: "available_highlightAll (page_prism md) = Some (\<lambda>t. Inr t)"
  by (simp add: page_prism_def)

lemma page_prism_quiet:
  "\<forall>h t. available_highlightAll (page_prism md) = Some h \<longrightarrow> (\<exists>markup. h t = Inr markup)"
  by (auto simp add: page_prism_def)

lemma displayed_after_change:
  assumes ex: "map_of codeExamples v = Some ex"
    and here: "present (authCode m)" "present (generateCode m)" "present (statusCode m)"
  shows "displayed_text (authCode (languageChanged (page_prism md) v m)) =
           html_text False (authentication ex) \<and>
         displayed_text (generateCode (languageChanged (page_prism md) v m)) =
           html_text False (websiteGeneration ex) \<and>
         displayed_text (statusCode (languageChanged (page_prism md) v m)) =
           html_text False (projectStatus ex)"
proof -
  let ?p = "page_prism md"
  let ?m0 = "fade_out ((setLoading True m)\<lparr>lastLanguage := currentLanguage m, currentLanguage := v\<rparr>)"
  have h0: "present (authCode ?m0)" "present (generateCode ?m0)" "present (statusCode ?m0)"
    and l0: "currentLanguage ?m0 = v"
    using here by (simp_all add: fade_out_keeps setLoading_def)
  from ex l0 have e0: "map_of codeExamples (currentLanguage ?m0) = Some ex" by simp
  note u1 = update_shows [OF h0 e0 page_prism_quiet]
  let ?m1 = "fade_in (updateCodeExamples ?p ?m0)"
  have h1: "present (authCode ?m1)" "present (generateCode ?m1)" "present (statusCode ?m1)"
    and l1: "currentLanguage ?m1 = v"
    using u1 l0 by (simp_all add: fade_in_keeps)
  from ex l1 have e1: "map_of codeExamples (currentLanguage ?m1) = Some ex" by simp
  note d = update_with_raw_markup [OF h1 page_prism_highlightAll, where ex = ex]
  show ?thesis
    unfolding languageChanged_unfold using d by (simp add: tail_keeps update_found [OF e1])
qed

lemma php_entry:
  "map_of codeExamples ''php'' =
     Some \<lparr>authentication = php_authentication,
            websiteGeneration = php_websiteGeneration,
            projectStatus = php_projectStatus\<rparr>"
  by (simp add: codeExamples_def)

lemma php_authentication_parsed:
  "html_text False php_authentication = Some (drop 98 php_authentication)"
  by (simp add: php_authentication_def)

lemma php_websiteGeneration_parsed:
  "html_text False php_websiteGeneration = Some (drop 107 php_websiteGeneration)"
  by (simp add: php_websiteGeneration_def)

lemma php_projectStatus_parsed:
  "html_text False php_projectStatus = Some (drop 142 php_projectStatus)"
  by (simp add: php_projectStatus_def)

lemma drop_shorter: "0 < n \<Longrightarrow> xs \<noteq> [] \<Longrightarrow> drop n xs \<noteq> xs"
proof
  assume n: "0 < n" and xs: "xs \<noteq> []" and eq: "drop n xs = xs"
  from eq have "length (drop n xs) = length xs" by simp
  then have "length xs - n = length xs" by simp
  moreover from xs have "0 < length xs" by simp
  ultimately show False using n by arith
qed

text \<open>
  Claim C6. Choosing one of the five languages is to make the three panels display the three
  literals the store holds for it. With the highlighter that the page installs this fails
  for php: \<^verbatim>\<open>updateCodeExamples\<close> assigns the literals as text, and \<^verbatim>\<open>Prism.highlightAll\<close>
  then assigns the same text, not escaped, to \<^verbatim>\<open>innerHTML\<close>, where everything from the
  opening \<^verbatim>\<open><?php\<close> to the first \<^verbatim>\<open>>\<close> is read as a comment. Each php panel displays
  its literal without its first 98, 107 and 142 characters.
\<close>

theorem php_panels_do_not_show_their_fixtures:
  "displayed_text (authCode (languageChanged (page_prism md) ''php'' loaded_switcher)) =
     Some (drop 98 php_authentication) \<and>
   displayed_text (generateCode (languageChanged (page_prism md) ''php'' loaded_switcher)) =
     Some (drop 107 php_websiteGeneration) \<and>
   displayed_text (statusCode (languageChanged (page_prism md) ''php'' loaded_switcher)) =
     Some (drop 142 php_projectStatus) \<and>
   drop 98 php_authentication \<noteq> php_authentication \<and>
   drop 107 php_websiteGeneration \<noteq> php_websiteGeneration \<and>
   drop 142 php_projectStatus \<noteq> php_projectStatus \<and>
   panel_text (authCode (languageChanged (page_prism md) ''php'' loaded_switcher)) =
     Some php_authentication"
proof -
  note d = displayed_after_change [OF php_entry loaded_switcher_present, of md]
  have a: "displayed_text (authCode (languageChanged (page_prism md) ''php'' loaded_switcher)) =
     Some (drop 98 php_authentication)"
    using d by (simp add: php_authentication_parsed)
  have g: "displayed_text (generateCode (languageChanged (page_prism md) ''php'' loaded_switcher)) =
     Some (drop 107 php_websiteGeneration)"
    using d by (simp add: php_websiteGeneration_parsed)
  have st: "displayed_text (statusCode (languageChanged (page_prism md) ''php'' loaded_switcher)) =
     Some (drop 142 php_projectStatus)"
    using d by (simp add: php_projectStatus_parsed)
  have n: "drop 98 php_authentication \<noteq> php_authentication"
     "drop 107 php_websiteGeneration \<noteq> php_websiteGeneration"
     "drop 142 php_projectStatus \<noteq> php_projectStatus"
    by (simp_all add: drop_shorter fixtures_nonempty)
  have lang: "''php'' \<in> set languageSelect_options" by (simp add: languageSelect_options_def)
  have "\<exists>ex. map_of codeExamples ''php'' = Some ex \<and>
     panel_text (authCode (languageChanged (page_prism md) ''php'' loaded_switcher)) = Some (authentication ex) \<and>
     panel_text (generateCode (languageChanged (page_prism md) ''php'' loaded_switcher)) = Some (websiteGeneration ex) \<and>
     panel_text (statusCode (languageChanged (page_prism md) ''php'' loaded_switcher)) = Some (projectStatus ex) \<and>
     authentication ex \<noteq> [] \<and> websiteGeneration ex \<noteq> [] \<and> projectStatus ex \<noteq> []"
    by (rule assigned_text_is_fixture [OF lang loaded_switcher_present]) (simp add: page_prism_def)
  then obtain ex where ex: "map_of codeExamples ''php'' = Some ex"
    and p: "panel_text (authCode (languageChanged (page_prism md) ''php'' loaded_switcher)) = Some (authentication ex)"
    by (elim exE conjE)
  from ex php_entry have "ex = \<lparr>authentication = php_authentication,
            websiteGeneration = php_websiteGeneration,
            projectStatus = php_projectStatus\<rparr>" by simp
  then have "authentication ex = php_authentication" by simp
  with p have t: "panel_text (authCode (languageChanged (page_prism md) ''php'' loaded_switcher)) =
     Some php_authentication" by simp
  from a g st n t show ?thesis by (intro conjI)
qed

text \<open>A language whose literals hold no \<^verbatim>\<open><\<close> and no \<^verbatim>\<open>&\<close> is displayed as stored.\<close>

lemma python_panels_show_their_fixtures:
  "displayed_text (authCode (languageChanged (page_prism md) ''python'' loaded_switcher)) =
     Some python_authentication \<and>
   displayed_text (generateCode (languageChanged (page_prism md) ''python'' loaded_switcher)) =
     Some python_websiteGeneration \<and>
   displayed_text (statusCode (languageChanged (page_prism md) ''python'' loaded_switcher)) =
     Some python_projectStatus"
proof -
  have a: "html_text False python_authentication = Some python_authentication"
    by (simp add: python_authentication_def)
  have g: "html_text False python_websiteGeneration = Some python_websiteGeneration"
    by (simp add: python_websiteGeneration_def)
  have st: "html_text False python_projectStatus = Some python_projectStatus"
    by (simp add: python_projectStatus_def)
  from displayed_after_change [OF python_entry loaded_switcher_present, of md] a g st
  show ?thesis by simp
qed

subsection \<open>Requests in flight\<close>

lemma begin_disables: "runButton_disabled (fst (generateWebsite_begin s))"
  by (simp add: generateWebsite_begin_def setPreviewLoading_def Let_def)

lemma reset_keeps_button:
  "runButton_disabled (snd (resetPlayground p s)) = runButton_disabled s"
  by (simp add: resetPlayground_def setInitialState_def updatePreviewCode_form)

lemma step_single_flight:
  "single_flight w \<Longrightarrow> single_flight (playground_step p w ev)"
proof (cases ev)
  case RunClick
  assume "single_flight w"
  then show ?thesis
    using begin_disables [of "pg_page w"]
    by (auto simp add: RunClick playground_step_def single_flight_def split_beta Let_def)
next
  case ResetClick
  assume "single_flight w"
  then show ?thesis
    by (simp add: ResetClick playground_step_def single_flight_def reset_keeps_button)
next
  case (RunSettled outcome)
  assume "single_flight w"
  then show ?thesis
    by (cases "pg_pending w") (auto simp add: RunSettled playground_step_def single_flight_def)
qed

lemma run_single_flight:
  "single_flight w \<Longrightarrow> single_flight (playground_run p evs w)"
  unfolding playground_run_def
  by (induction evs arbitrary: w) (simp_all add: step_single_flight)

lemma playground_one_request_in_flight:
  "length (pg_pending (playground_run p evs \<lparr>pg_page = s, pg_pending = []\<rparr>)) \<le> 1"
proof -
  have "single_flight \<lparr>pg_page = s, pg_pending = []\<rparr>" by (simp add: single_flight_def)
  then have "single_flight (playground_run p evs \<lparr>pg_page = s, pg_pending = []\<rparr>)"
    by (rule run_single_flight)
  then show ?thesis by (auto simp add: single_flight_def)
qed

lemma playground_second_click_ignored:
  "playground_run p [RunClick, RunClick] \<lparr>pg_page = s, pg_pending = []\<rparr> =
   playground_run p [RunClick] \<lparr>pg_page = s, pg_pending = []\<rparr>"
  using begin_disables [of s]
  by (cases "runButton_disabled s")
     (simp_all add: playground_run_def playground_step_def split_beta Let_def)

text \<open>
  Claim C4. While a request is in flight the triggering control is disabled, so that a
  further submission is dropped and each controller has at most one request in flight.
  The playground does this (the three lemmas above). The key-request form does not:
  \<^verbatim>\<open>setFormLoading\<close> marks the submit button as loading but leaves it enabled, and a second
  \<^verbatim>\<open>submit\<close> on a valid form while the first request is pending puts a second request in
  flight.
\<close>

theorem key_request_second_submit_issues_second_request:
  "length (key_pending (key_run [Submit, Submit]
      \<lparr>key_modal = opened_modal (utf16 ''a@b.co'') (utf16 ''AB''), key_pending = []\<rparr>)) = 2 \<and>
   submit_loading (form (key_modal (key_run [Submit]
      \<lparr>key_modal = opened_modal (utf16 ''a@b.co'') (utf16 ''AB''), key_pending = []\<rparr>))) \<and>
   \<not> submit_disabled (form (key_modal (key_run [Submit]
      \<lparr>key_modal = opened_modal (utf16 ''a@b.co'') (utf16 ''AB''), key_pending = []\<rparr>)))"
proof -
  let ?m = "opened_modal (utf16 ''a@b.co'') (utf16 ''AB'')"
  have v: "fst (validateForm (clearErrors (form ?m)))"
    using email_example
    by (simp add: validateForm_flag clearErrors_values opened_modal_def injected_form_def utf16_def)
  note b1 = begin_valid [OF v]
  let ?m1 = "?m\<lparr>form := setFormLoading True (snd (validateForm (clearErrors (form ?m))))\<rparr>"
  have vals: "email_value (form ?m1) = email_value (form ?m) \<and>
              company_value (form ?m1) = company_value (form ?m)"
    by (simp add: setFormLoading_def validateForm_values clearErrors_values)
  have v1: "fst (validateForm (clearErrors (form ?m1)))"
    using v vals by (simp add: validateForm_flag clearErrors_values)
  note b2 = begin_valid [OF v1]
  have d: "\<not> submit_disabled (form ?m1) \<and> form_in_document ?m1 \<and> submit_loading (form ?m1)"
    by (simp add: setFormLoading_def validateForm_values clearErrors_def opened_modal_def injected_form_def)
  have d0: "\<not> submit_disabled (form ?m) \<and> form_in_document ?m"
    by (simp add: opened_modal_def injected_form_def)
  have s1: "key_step \<lparr>key_modal = ?m, key_pending = []\<rparr> Submit =
      \<lparr>key_modal = ?m1, key_pending = [\<lparr>rq_url = ui_apiEndpoint @ ''/keys/generate'',
            rq_email = email_value (form ?m), rq_company_name = company_value (form ?m)\<rparr>]\<rparr>"
    using d0 by (simp add: key_step_def b1)
  have s2: "length (key_pending (key_step \<lparr>key_modal = ?m1, key_pending = [r]\<rparr> Submit)) = 2" for r
    using d by (simp add: key_step_def b2)
  show ?thesis
    using d s2 by (simp add: key_run_def s1)
qed

end
